theory Spec2Isabelle
  imports Main
begin

section \<open>Data model of \<open>src/index.ts\<close>\<close>

text \<open>
  A JavaScript \<open>Error\<close> is its message. Errors raised by the collaborators (chain provider,
  contract, peer routing, peer store, connection manager) are values of the same type.
\<close>

datatype error = Error string

text \<open>
  What \<open>toEthersProvider\<close> can see of the value passed as \<open>options.ethereum\<close>: whether
  \<open>typeof input.getNetwork === 'function'\<close> and whether \<open>typeof input.request === 'function'\<close>.
  \<open>BrowserProvider\<close> is the wrapper of ethers around an EIP-1193 object.
\<close>

datatype Provider =
    Object (getNetwork_is_function: bool) (request_is_function: bool)
  | BrowserProvider Provider

type_synonym PeerId = string
type_synonym Multiaddr = string

record PeerInfo =
  id' :: PeerId
  multiaddrs :: "Multiaddr list"

text \<open>
  \<open>BootstrapInit\<close>. The four required fields are \<open>option\<close>s because the constructor tests each
  of them with \<open>== null\<close>; the others are optional in the interface. \<open>tagTTL\<close> is only handed
  on to the peer store.
\<close>

record BootstrapInit =
  contractAddress :: "string option"
  contractIndex :: "string option"
  chainId :: "int option"
  ethereum :: "Provider option"
  timeout :: "nat option"
  tagName :: "string option"
  tagValue :: "int option"
  tagTTL :: "nat option"

definition DEFAULT_BOOTSTRAP_TAG_NAME :: string where
  "DEFAULT_BOOTSTRAP_TAG_NAME = ''evmbootstrap''"

definition DEFAULT_BOOTSTRAP_TAG_VALUE :: int where
  "DEFAULT_BOOTSTRAP_TAG_VALUE = 50"

definition DEFAULT_BOOTSTRAP_DISCOVERY_TIMEOUT :: nat where
  "DEFAULT_BOOTSTRAP_DISCOVERY_TIMEOUT = 1000"

subsection \<open>Calls to the collaborators\<close>

text \<open>
  Every call that leaves the class is recorded, in program order: the three entry points of the
  logger (\<open>this.log\<close>, \<open>this.log.trace\<close>, \<open>this.log.error\<close>) with their arguments, the chain
  provider, the contract, peer routing, the peer store, the event emitter and the connection
  manager.
\<close>

datatype level = Info | Trace | Err

datatype arg =
    ArgStr string
  | ArgNum nat
  | ArgStrs "string list"
  | ArgErr error
  | ArgPeerId PeerId
  | ArgPeerInfo PeerInfo

datatype event =
    Log level "arg list"
  | GetNetwork
  | NewContract "string option"
  | GetAllPeerIds "string option"
  | FindPeer PeerId
  | Merge PeerId string int "nat option" "Multiaddr list"
  | PeerEvent PeerInfo
  | OpenConnection PeerId

text \<open>
  The instance together with the part of the host it touches. \<open>timer\<close>, \<open>list\<close>, \<open>timeout\<close>
  and \<open>init\<close> are the fields \<open>this.timer\<close>, \<open>this.list\<close>, \<open>this.timeout\<close> and \<open>this._init\<close>.
  A timer handle is a number (a positive one from \<open>setTimeout\<close>); \<open>None\<close> is \<open>undefined\<close>.
  \<open>now\<close>, \<open>next_handle\<close> and \<open>pending\<close> are the host's clock and its armed timers
  (handle and due time), \<open>trace\<close> the calls made so far. \<open>background\<close> holds the log lines
  written by the \<open>.then\<close>/\<open>.catch\<close> continuations of \<open>openConnection\<close>, in dispatch order:
  they run detached, so their position relative to \<open>trace\<close> is not fixed by the code.
\<close>

record EVMBootstrap =
  timer :: "nat option"
  list :: "PeerInfo list"
  timeout :: nat
  init :: BootstrapInit
  now :: nat
  next_handle :: nat
  pending :: "(nat \<times> nat) list"
  trace :: "event list"
  background :: "event list"

text \<open>
  The places where code of the host runs in the middle of \<open>_discoverBootstrapPeers\<close>. At an
  \<open>await\<close> the run is suspended: the network query, the contract query, the routing lookup of the
  identifier at a position, the registry merge of the entry at a position. At
  \<open>safeDispatchEvent\<close> the listeners of the \<open>peer\<close> event of the entry at a position run
  synchronously, before the next statement of the loop.
\<close>

datatype point = AtGetNetwork | AtGetAllPeerIds | AtFindPeer nat | AtMerge nat | AtPeerEvent nat

text \<open>
  What a call of \<open>connectionManager.openConnection\<close> does: it returns a promise that resolves or
  one that rejects, or the call itself throws (also when what it returns has no \<open>then\<close>).
\<close>

datatype dial_result = Resolves | Rejects error | Throws error

text \<open>
  What the collaborators answer during one run of the pipeline. For the calls that are awaited
  (\<open>getNetwork\<close>, \<open>getAllPeerIds\<close>, \<open>findPeer\<close>, \<open>merge\<close>) \<open>Inl\<close>/\<open>Some\<close> is a thrown error
  or a rejected promise: the \<open>await\<close> turns both into a throw at the same place.
  \<open>ContractClass\<close> is the class the instance constructs its contract with (the injected one,
  or \<open>Contract\<close> of ethers): \<open>Some err\<close> when \<open>new\<close> throws. \<open>findPeer\<close>, \<open>merge\<close> and
  \<open>openConnection\<close> take the position of the call, so that two calls for the same peer may be
  answered differently. \<open>stops p\<close> says that \<open>stop()\<close> is called at \<open>p\<close>: by the host while
  the run is suspended there, or by a listener of the \<open>peer\<close> event. The model has one run at a
  time: a \<open>start()\<close> while a run is in flight, which can begin a second run interleaved with
  the first, is outside it.
\<close>

record env =
  getNetwork :: "error + int"
  ContractClass :: "error option"
  getAllPeerIds :: "error + string list"
  peerIdFromString :: "string \<Rightarrow> error + PeerId"
  findPeer :: "nat \<Rightarrow> PeerId \<Rightarrow> error + PeerInfo"
  merge :: "nat \<Rightarrow> PeerInfo \<Rightarrow> error option"
  openConnection :: "nat \<Rightarrow> PeerId \<Rightarrow> dial_result"
  stops :: "point \<Rightarrow> bool"

section \<open>Construction\<close>

text \<open>\<open>toEthersProvider\<close>; \<open>window_defined\<close> is \<open>typeof window !== 'undefined'\<close>.\<close>

fun has_getNetwork :: "Provider \<Rightarrow> bool" where
  "has_getNetwork (Object g r) = g"
| "has_getNetwork (BrowserProvider p) = True"

fun has_request :: "Provider \<Rightarrow> bool" where
  "has_request (Object g r) = r"
| "has_request (BrowserProvider p) = False"

definition toEthersProvider :: "bool \<Rightarrow> Provider option \<Rightarrow> error + Provider" where
  "toEthersProvider window_defined input =
     (case input of
        None \<Rightarrow> Inl (Error ''Invalid provider: must be an ethers Provider or EIP-1193 provider'')
      | Some p \<Rightarrow>
          if has_getNetwork p then Inr p
          else if window_defined \<and> has_request p then Inr (BrowserProvider p)
          else Inl (Error ''Invalid provider: must be an ethers Provider or EIP-1193 provider''))"

text \<open>
  The constructor of \<open>EVMBootstrap\<close>. The new instance starts with no timer and an empty list;
  the host part starts empty.
\<close>

definition constructor :: "bool \<Rightarrow> BootstrapInit \<Rightarrow> error + EVMBootstrap" where
  "constructor window_defined options =
     (if contractAddress options = None then Inl (Error ''EVMBootstrap requires a contract address'')
      else if contractIndex options = None then Inl (Error ''EVMBootstrap requires a contract index'')
      else if chainId options = None then Inl (Error ''EVMBootstrap requires a chain id'')
      else if ethereum options = None then Inl (Error ''EVMBootstrap requires an ethereum provider'')
      else
        (case toEthersProvider window_defined (ethereum options) of
           Inl err \<Rightarrow> Inl err
         | Inr p \<Rightarrow>
             Inr \<lparr> timer = None,
                   list = [],
                   timeout = (case BootstrapInit.timeout options of
                                None \<Rightarrow> DEFAULT_BOOTSTRAP_DISCOVERY_TIMEOUT | Some t \<Rightarrow> t),
                   init = options\<lparr>ethereum := Some p\<rparr>,
                   now = 0, next_handle = 0, pending = [], trace = [], background = [] \<rparr>))"

section \<open>Lifecycle\<close>

definition emit :: "event \<Rightarrow> EVMBootstrap \<Rightarrow> EVMBootstrap" where
  "emit e s = s\<lparr>trace := trace s @ [e]\<rparr>"

definition log :: "level \<Rightarrow> arg list \<Rightarrow> EVMBootstrap \<Rightarrow> EVMBootstrap" where
  "log l args s = emit (Log l args) s"

text \<open>
  The host's one-shot timers. \<open>setTimeout\<close> hands out a fresh positive handle and arms it
  \<open>delay\<close> after the present time; \<open>clearTimeout\<close> disarms a handle, and does nothing for a
  handle that is not armed.
\<close>

definition setTimeout :: "nat \<Rightarrow> EVMBootstrap \<Rightarrow> nat \<times> EVMBootstrap" where
  "setTimeout delay s =
     (let h = Suc (next_handle s)
      in (h, s\<lparr>next_handle := h, pending := pending s @ [(h, now s + delay)]\<rparr>))"

definition clearTimeout :: "nat \<Rightarrow> EVMBootstrap \<Rightarrow> EVMBootstrap" where
  "clearTimeout h s = s\<lparr>pending := filter (\<lambda>(h', due). h' \<noteq> h) (pending s)\<rparr>"

text \<open>\<open>isStarted\<close> is \<open>Boolean(this.timer)\<close>: \<open>undefined\<close> and the number 0 are falsy.\<close>

definition isStarted :: "EVMBootstrap \<Rightarrow> bool" where
  "isStarted s = (case timer s of None \<Rightarrow> False | Some h \<Rightarrow> h \<noteq> 0)"

definition start :: "EVMBootstrap \<Rightarrow> EVMBootstrap" where
  "start s =
     (if isStarted s then s
      else
        (let s1 = log Info [ArgStr ''Starting evm bootstrap node discovery, discovering peers after %s ms'',
                            ArgNum (timeout s)] s;
             (h, s2) = setTimeout (timeout s1) s1
         in s2\<lparr>timer := Some h\<rparr>))"

definition stop :: "EVMBootstrap \<Rightarrow> EVMBootstrap" where
  "stop s =
     (let s1 = (case timer s of None \<Rightarrow> s | Some h \<Rightarrow> clearTimeout h s)
      in s1\<lparr>timer := None\<rparr>)"

section \<open>The discovery pipeline\<close>

text \<open>
  A \<open>bigint\<close> in a template literal is written in decimal. \<open>template\<close> is the text that
  \<open>${this._init.chainId}\<close> produces; the constructor rules out the missing value.
\<close>

definition digit :: "nat \<Rightarrow> char" where
  "digit d = char_of (48 + d)"

fun digits :: "nat \<Rightarrow> string" where
  "digits n = (if n < 10 then [digit n] else digits (n div 10) @ [digit (n mod 10)])"

definition toString :: "int \<Rightarrow> string" where
  "toString i = (if i < 0 then CHR ''-'' # digits (nat (- i)) else digits (nat i))"

fun template :: "int option \<Rightarrow> string" where
  "template None = ''undefined''"
| "template (Some i) = toString i"

definition wrong_chain_log :: "int \<Rightarrow> int option \<Rightarrow> string" where
  "wrong_chain_log observed expected =
     ''Ethereum provider is connected to chainId '' @ toString observed @
     '', but expected '' @ template expected @
     ''. Please switch networks in your wallet.''"

definition wrong_network_message :: "int option \<Rightarrow> int \<Rightarrow> string" where
  "wrong_network_message expected observed =
     ''Wrong network: expected chainId '' @ template expected @ '', got '' @ toString observed"

text \<open>
  An \<open>await\<close>: the run is suspended, and the host may call \<open>stop()\<close> before it resumes.
\<close>

definition await :: "env \<Rightarrow> point \<Rightarrow> EVMBootstrap \<Rightarrow> EVMBootstrap" where
  "await env p s = (if stops env p then stop s else s)"

text \<open>
  The body of the first loop for the identifier at position \<open>k\<close>: parse, look up, append;
  the inner \<open>catch\<close> logs the identifier and goes on.
\<close>

definition resolve_one :: "env \<Rightarrow> nat \<Rightarrow> string \<Rightarrow> EVMBootstrap \<Rightarrow> EVMBootstrap" where
  "resolve_one env k peerIdStr s =
     (let s1 = log Trace [ArgStr ''Processing peer ID:'', ArgStr peerIdStr] s
      in case peerIdFromString env peerIdStr of
           Inl err \<Rightarrow>
             log Err [ArgStr ''Could not lookup  multiaddrs for bootstrap peer'',
                      ArgStr peerIdStr, ArgErr err] s1
         | Inr peerId \<Rightarrow>
             (let s2 = await env (AtFindPeer k) (emit (FindPeer peerId) s1)
              in case findPeer env k peerId of
                   Inl err \<Rightarrow>
                     log Err [ArgStr ''Could not lookup  multiaddrs for bootstrap peer'',
                              ArgStr peerIdStr, ArgErr err] s2
                 | Inr peerInfo \<Rightarrow>
                     log Trace [ArgStr ''Added peer info to list:'', ArgPeerInfo peerInfo]
                       (s2\<lparr>list := list s2 @ [peerInfo]\<rparr>)))"

fun resolve_loop :: "env \<Rightarrow> nat \<Rightarrow> string list \<Rightarrow> EVMBootstrap \<Rightarrow> EVMBootstrap" where
  "resolve_loop env k [] s = s"
| "resolve_loop env k (peerIdStr # rest) s =
     resolve_loop env (Suc k) rest (resolve_one env k peerIdStr s)"

text \<open>
  How a block of statements ends: it runs to its end, it executes \<open>return\<close>, or it throws.
\<close>

datatype completion = Normal | Return | Throw error

definition merge_call :: "BootstrapInit \<Rightarrow> PeerInfo \<Rightarrow> event" where
  "merge_call i peerData =
     Merge (id' peerData)
       (case tagName i of None \<Rightarrow> DEFAULT_BOOTSTRAP_TAG_NAME | Some n \<Rightarrow> n)
       (case tagValue i of None \<Rightarrow> DEFAULT_BOOTSTRAP_TAG_VALUE | Some v \<Rightarrow> v)
       (tagTTL i)
       (multiaddrs peerData)"

text \<open>
  \<open>safeDispatchEvent('peer', ...)\<close> for the entry at position \<open>j\<close>: the listeners run before it
  returns, and one of them may call \<open>stop()\<close>. What a listener throws does not reach the loop.
\<close>

definition safeDispatchEvent :: "env \<Rightarrow> nat \<Rightarrow> PeerInfo \<Rightarrow> EVMBootstrap \<Rightarrow> EVMBootstrap" where
  "safeDispatchEvent env j peerData s =
     (let s1 = emit (PeerEvent peerData) s
      in if stops env (AtPeerEvent j) then stop s1 else s1)"

text \<open>
  The line a continuation of \<open>openConnection(...)\<close> writes when the promise settles; a call
  that throws has returned no promise and has no continuation.
\<close>

definition dial_log :: "env \<Rightarrow> nat \<Rightarrow> PeerId \<Rightarrow> event list" where
  "dial_log env j peer =
     (case openConnection env j peer of
        Resolves \<Rightarrow>
          [Log Trace [ArgStr ''Successfully called openConnection for peer'', ArgPeerId peer]]
      | Rejects err \<Rightarrow>
          [Log Err [ArgStr ''could not dial bootstrap peer %p'', ArgPeerId peer, ArgErr err]]
      | Throws err \<Rightarrow> [])"

text \<open>
  \<open>this.components.connectionManager.openConnection(peerData.id).then(...).catch(...)\<close>, a
  statement inside the outer \<open>try\<close> with no \<open>await\<close>: \<open>Some err\<close> when the call throws.
\<close>

definition dial :: "env \<Rightarrow> nat \<Rightarrow> PeerId \<Rightarrow> EVMBootstrap \<Rightarrow> error option \<times> EVMBootstrap" where
  "dial env j peer s =
     (let s1 = emit (OpenConnection peer) s
      in case openConnection env j peer of
           Throws err \<Rightarrow> (Some err, s1)
         | Resolves \<Rightarrow> (None, s1\<lparr>background := background s1 @ dial_log env j peer\<rparr>)
         | Rejects err \<Rightarrow> (None, s1\<lparr>background := background s1 @ dial_log env j peer\<rparr>))"

text \<open>
  The second loop, over \<open>this.list\<close>, at the entry of position \<open>j\<close>: merge (awaited, not caught
  here), then the check of the timer, then the event and the dial. The timer is looked at once
  per entry, after the merge.
\<close>

fun tag_loop :: "env \<Rightarrow> nat \<Rightarrow> PeerInfo list \<Rightarrow> EVMBootstrap \<Rightarrow> completion \<times> EVMBootstrap" where
  "tag_loop env j [] s = (Normal, s)"
| "tag_loop env j (peerData # rest) s =
     (let s1 = log Trace [ArgStr ''Processing peer data:'', ArgPeerInfo peerData] s;
          s2 = await env (AtMerge j) (emit (merge_call (init s1) peerData) s1)
      in case merge env j peerData of
           Some err \<Rightarrow> (Throw err, s2)
         | None \<Rightarrow>
             if timer s2 = None
             then (Return, log Trace [ArgStr ''Timer is null, returning early''] s2)
             else
               (let s3 = log Trace [ArgStr ''Dispatching peer event''] s2;
                    s4 = safeDispatchEvent env j peerData s3;
                    s5 = log Trace [ArgStr ''About to call openConnection for peer'',
                                    ArgPeerId (id' peerData)] s4
                in case dial env j (id' peerData) s5 of
                     (Some err, s6) \<Rightarrow> (Throw err, s6)
                   | (None, s6) \<Rightarrow> tag_loop env (Suc j) rest s6))"

text \<open>The statements inside the outer \<open>try\<close>.\<close>

definition try_block :: "env \<Rightarrow> EVMBootstrap \<Rightarrow> completion \<times> EVMBootstrap" where
  "try_block env s =
     (let s1 = log Trace [ArgStr ''Creating contract instance''] s;
          s2 = emit (NewContract (contractAddress (init s1))) s1
      in case ContractClass env of
           Some err \<Rightarrow> (Throw err, s2)
         | None \<Rightarrow>
             (let s3 = log Trace [ArgStr ''Calling getAllPeerIds''] s2;
                  s4 = await env AtGetAllPeerIds (emit (GetAllPeerIds (contractIndex (init s3))) s3)
              in case getAllPeerIds env of
                   Inl err \<Rightarrow> (Throw err, s4)
                 | Inr peerIds \<Rightarrow>
                     (let s5 = log Info [ArgStr ''Found %d bootstrap peers ids'',
                                         ArgNum (length peerIds), ArgStrs peerIds] s4;
                          s6 = log Trace [ArgStr ''Processing peer IDs:'', ArgStrs peerIds] s5;
                          s7 = resolve_loop env 0 peerIds s6;
                          s8 = log Trace [ArgStr ''Processing peer list, count:'',
                                          ArgNum (length (list s7))] s7
                      in tag_loop env 0 (list s8) s8)))"

text \<open>
  \<open>_discoverBootstrapPeers\<close>. The first component of the result is \<open>None\<close> when the promise
  resolves and \<open>Some err\<close> when it rejects with \<open>err\<close>.
\<close>

definition discoverBootstrapPeers :: "env \<Rightarrow> EVMBootstrap \<Rightarrow> error option \<times> EVMBootstrap" where
  "discoverBootstrapPeers env s =
     (let s0 = log Trace [ArgStr ''_discoverBootstrapPeers called''] s
      in if timer s0 = None
         then (None, log Trace [ArgStr ''timer is null, returning early''] s0)
         else
           (let s1 = log Trace [ArgStr ''Getting network from ethereum provider''] s0;
                s2 = await env AtGetNetwork (emit GetNetwork s1)
            in case getNetwork env of
                 Inl err \<Rightarrow> (Some err, s2)
               | Inr network \<Rightarrow>
                   if Some network \<noteq> chainId (init s2)
                   then (Some (Error (wrong_network_message (chainId (init s2)) network)),
                         log Err [ArgStr (wrong_chain_log network (chainId (init s2)))] s2)
                   else
                     (case try_block env s2 of
                        (Throw err, s3) \<Rightarrow>
                          (None, log Err [ArgStr ''Could not discover bootstrap peers'', ArgErr err] s3)
                      | (c, s3) \<Rightarrow> (None, s3))))"

section \<open>The timer firing\<close>

text \<open>
  The callback that \<open>start\<close> hands to \<open>setTimeout\<close>: run the pipeline, and log what it
  rejects with.
\<close>

definition timer_callback :: "env \<Rightarrow> EVMBootstrap \<Rightarrow> EVMBootstrap" where
  "timer_callback env s =
     (case discoverBootstrapPeers env s of
        (None, s') \<Rightarrow> s'
      | (Some err, s') \<Rightarrow> log Err [ArgErr err] s')"

fun fire :: "(nat \<Rightarrow> env) \<Rightarrow> (nat \<times> nat) list \<Rightarrow> EVMBootstrap \<Rightarrow> EVMBootstrap" where
  "fire envs [] s = s"
| "fire envs ((h, due) # rest) s =
     fire envs rest
       (if (h, due) \<in> set (pending s)
        then timer_callback (envs h) (s\<lparr>pending := remove1 (h, due) (pending s), now := max (now s) due\<rparr>)
        else s)"

text \<open>
  The host's clock advances by \<open>d\<close>: the timers due by then fire in the order of their due
  times, each one only if it is still armed when its turn comes. \<open>envs h\<close> is what the
  collaborators answer to the run started by the timer with handle \<open>h\<close>.
\<close>

definition tick :: "(nat \<Rightarrow> env) \<Rightarrow> nat \<Rightarrow> EVMBootstrap \<Rightarrow> EVMBootstrap" where
  "tick envs d s =
     (let target = now s + d;
          due = sort_key snd (filter (\<lambda>(h, t). t \<le> target) (pending s))
      in (fire envs due s)\<lparr>now := target\<rparr>)"

section \<open>Reading a run\<close>

text \<open>
  What the identifier at position \<open>k\<close> resolves to (parse, then look up), and the entries that
  the first loop appends for a sequence of identifiers: the successful results, in order.
\<close>

definition resolve1 :: "env \<Rightarrow> nat \<Rightarrow> string \<Rightarrow> error + PeerInfo" where
  "resolve1 env k peerIdStr =
     (case peerIdFromString env peerIdStr of
        Inl err \<Rightarrow> Inl err
      | Inr peerId \<Rightarrow> findPeer env k peerId)"

fun resolved :: "env \<Rightarrow> nat \<Rightarrow> string list \<Rightarrow> PeerInfo list" where
  "resolved env k [] = []"
| "resolved env k (peerIdStr # rest) =
     (case resolve1 env k peerIdStr of
        Inl err \<Rightarrow> resolved env (Suc k) rest
      | Inr peerInfo \<Rightarrow> peerInfo # resolved env (Suc k) rest)"

text \<open>What a trace says was handed to the peer store, the listeners and the connection manager.\<close>

fun merged :: "event list \<Rightarrow> event list" where
  "merged [] = []"
| "merged (Merge p n v t a # es) = Merge p n v t a # merged es"
| "merged (e # es) = merged es"

fun announced :: "event list \<Rightarrow> PeerInfo list" where
  "announced [] = []"
| "announced (PeerEvent p # es) = p # announced es"
| "announced (e # es) = announced es"

fun dialed :: "event list \<Rightarrow> PeerId list" where
  "dialed [] = []"
| "dialed (OpenConnection p # es) = p # dialed es"
| "dialed (e # es) = dialed es"

text \<open>The calls made by one run of the pipeline started in state \<open>s\<close>.\<close>

definition run_events :: "env \<Rightarrow> EVMBootstrap \<Rightarrow> event list" where
  "run_events env s = drop (length (trace s)) (trace (snd (discoverBootstrapPeers env s)))"

text \<open>The log lines that the continuations of the dials of one run write.\<close>

definition run_background :: "env \<Rightarrow> EVMBootstrap \<Rightarrow> event list" where
  "run_background env s =
     drop (length (background s)) (background (snd (discoverBootstrapPeers env s)))"

fun throws :: "dial_result \<Rightarrow> bool" where
  "throws (Throws err) = True"
| "throws r = False"

text \<open>
  What one pass of the second loop, started at position \<open>j\<close> on the entries \<open>ps\<close> in state
  \<open>s\<close>, leaves behind when it ends in state \<open>s'\<close> with completion \<open>c\<close>: \<open>tr\<close> are the calls
  it made and \<open>n\<close> the number of entries for which the event was dispatched and
  \<open>openConnection\<close> was called.
\<close>

definition loop_shape :: "env \<Rightarrow> nat \<Rightarrow> PeerInfo list \<Rightarrow> EVMBootstrap \<Rightarrow> completion \<Rightarrow> EVMBootstrap \<Rightarrow> event list \<Rightarrow> nat \<Rightarrow> bool" where
  "loop_shape env j ps s c s' tr n \<longleftrightarrow>
     trace s' = trace s @ tr \<and> list s' = list s \<and> init s' = init s \<and> n \<le> length ps
     \<and> announced tr = take n ps \<and> dialed tr = map id' (take n ps)
     \<and> background s' =
           background s @ concat (map (\<lambda>k. dial_log env (j + k) (id' (ps ! k))) [0..<n])
     \<and> (\<forall>k<n. merge env (j + k) (ps ! k) = None \<and> \<not> stops env (AtMerge (j + k)))
     \<and> (\<forall>k. Suc k < n \<longrightarrow> \<not> stops env (AtPeerEvent (j + k))
                          \<and> \<not> throws (openConnection env (j + k) (id' (ps ! k))))
     \<and> (0 < n \<longrightarrow> timer s \<noteq> None)
     \<and> (case c of
           Normal \<Rightarrow> n = length ps \<and> merged tr = map (merge_call (init s)) ps
                     \<and> (\<forall>k. Suc k = n \<longrightarrow> \<not> throws (openConnection env (j + k) (id' (ps ! k))))
         | Return \<Rightarrow> n < length ps \<and> merged tr = map (merge_call (init s)) (take (Suc n) ps)
                     \<and> merge env (j + n) (ps ! n) = None \<and> timer s' = None
                     \<and> (\<forall>k. Suc k = n \<longrightarrow> \<not> throws (openConnection env (j + k) (id' (ps ! k))))
                     \<and> (timer s = None \<or> stops env (AtMerge (j + n))
                          \<or> (\<exists>k. Suc k = n \<and> stops env (AtPeerEvent (j + k))))
         | Throw err \<Rightarrow>
              (n < length ps \<and> merged tr = map (merge_call (init s)) (take (Suc n) ps)
                 \<and> merge env (j + n) (ps ! n) = Some err
                 \<and> (\<forall>k. Suc k = n \<longrightarrow> \<not> throws (openConnection env (j + k) (id' (ps ! k)))))
            \<or> (\<exists>k. Suc k = n \<and> merged tr = map (merge_call (init s)) (take n ps)
                    \<and> openConnection env (j + k) (id' (ps ! k)) = Throws err))"

text \<open>
  Every entry into \<open>_discoverBootstrapPeers\<close> writes its first trace line, so the number of
  executions of the pipeline so far is the number of these lines.
\<close>

definition called :: event where
  "called = Log Trace [ArgStr ''_discoverBootstrapPeers called'']"

definition executions :: "EVMBootstrap \<Rightarrow> nat" where
  "executions s = length (filter (\<lambda>e. e = called) (trace s))"

section \<open>The objects of the test suite\<close>

text \<open>
  The configuration, the stub collaborators and the instance of \<open>test/evm-bootstrap.spec.ts\<close>
  (with shorter identifiers): \<open>fresh\<close> is the instance as constructed, \<open>armed\<close> the instance
  after the test has set \<open>instance.timer\<close> by hand.
\<close>

definition goodInit :: BootstrapInit where
  "goodInit = \<lparr> contractAddress = Some ''0x1234'', contractIndex = Some ''0xabcd'',
      chainId = Some 1, ethereum = Some (Object True True), timeout = Some 5000,
      tagName = Some ''mytag'', tagValue = Some 42, tagTTL = Some 60000 \<rparr>"

definition fresh :: EVMBootstrap where
  "fresh = \<lparr> timer = None, list = [], timeout = 5000, init = goodInit,
             now = 0, next_handle = 0, pending = [], trace = [], background = [] \<rparr>"

definition armed :: EVMBootstrap where
  "armed = fresh\<lparr>timer := Some 1\<rparr>"

definition mockPeerIds :: "string list" where
  "mockPeerIds = [''QmXb'', ''QmXc'', ''QmXd'']"

definition info :: "PeerId \<Rightarrow> PeerInfo" where
  "info p = \<lparr> id' = p, multiaddrs = [''/ip4/127.0.0.1/tcp/4001/ipfs/'' @ p] \<rparr>"

definition stubs :: env where
  "stubs = \<lparr> getNetwork = Inr 1, ContractClass = None, getAllPeerIds = Inr mockPeerIds,
             peerIdFromString = Inr, findPeer = (\<lambda>k p. Inr (info p)),
             merge = (\<lambda>j p. None), openConnection = (\<lambda>j p. Resolves), stops = (\<lambda>p. False) \<rparr>"

section \<open>Properties\<close>

subsection \<open>Frame lemmas; the second loop\<close>

lemma emit_fields [simp]:
  "trace (emit e s) = trace s @ [e]" "list (emit e s) = list s" "timer (emit e s) = timer s"
  "init (emit e s) = init s" "pending (emit e s) = pending s" "background (emit e s) = background s"
  "now (emit e s) = now s" "next_handle (emit e s) = next_handle s" "timeout (emit e s) = timeout s"
  by (simp_all add: emit_def)

lemma log_fields [simp]:
  "trace (log l a s) = trace s @ [Log l a]" "list (log l a s) = list s" "timer (log l a s) = timer s"
  "init (log l a s) = init s" "pending (log l a s) = pending s" "background (log l a s) = background s"
  "now (log l a s) = now s" "next_handle (log l a s) = next_handle s" "timeout (log l a s) = timeout s"
  by (simp_all add: log_def)

lemma stop_fields [simp]:
  "trace (stop s) = trace s" "list (stop s) = list s" "timer (stop s) = None"
  "init (stop s) = init s" "background (stop s) = background s"
  "now (stop s) = now s" "next_handle (stop s) = next_handle s" "timeout (stop s) = timeout s"
  by (simp_all add: stop_def clearTimeout_def Let_def split: option.splits)

lemma await_fields [simp]:
  "trace (await env p s) = trace s" "list (await env p s) = list s"
  "timer (await env p s) = (if stops env p then None else timer s)"
  "init (await env p s) = init s" "background (await env p s) = background s"
  "now (await env p s) = now s" "next_handle (await env p s) = next_handle s" "timeout (await env p s) = timeout s"
  by (simp_all add: await_def)

lemma safeDispatchEvent_fields [simp]:
  "trace (safeDispatchEvent env j p s) = trace s @ [PeerEvent p]"
  "list (safeDispatchEvent env j p s) = list s"
  "timer (safeDispatchEvent env j p s) = (if stops env (AtPeerEvent j) then None else timer s)"
  "init (safeDispatchEvent env j p s) = init s"
  "background (safeDispatchEvent env j p s) = background s"
  "now (safeDispatchEvent env j p s) = now s"
  "next_handle (safeDispatchEvent env j p s) = next_handle s"
  "timeout (safeDispatchEvent env j p s) = timeout s"
  by (simp_all add: safeDispatchEvent_def Let_def)

lemma dial_fields [simp]:
  "trace (snd (dial env j p s)) = trace s @ [OpenConnection p]"
  "list (snd (dial env j p s)) = list s"
  "timer (snd (dial env j p s)) = timer s" "init (snd (dial env j p s)) = init s"
  "pending (snd (dial env j p s)) = pending s"
  "now (snd (dial env j p s)) = now s" "next_handle (snd (dial env j p s)) = next_handle s"
  "timeout (snd (dial env j p s)) = timeout s"
  "background (snd (dial env j p s)) = background s @ dial_log env j p"
  by (simp_all add: dial_def dial_log_def Let_def split: dial_result.splits)

lemma dial_result:
  "fst (dial env j p s) = (case openConnection env j p of Throws err \<Rightarrow> Some err | r \<Rightarrow> None)"
  by (simp add: dial_def Let_def split: dial_result.splits)

lemma throws_iff: "throws r \<longleftrightarrow> (\<exists>err. r = Throws err)"
  by (cases r) simp_all

lemma merged_append [simp]: "merged (xs @ ys) = merged xs @ merged ys"
  by (induction xs rule: merged.induct) simp_all

lemma announced_append [simp]: "announced (xs @ ys) = announced xs @ announced ys"
  by (induction xs rule: announced.induct) simp_all

lemma dialed_append [simp]: "dialed (xs @ ys) = dialed xs @ dialed ys"
  by (induction xs rule: dialed.induct) simp_all

lemma merged_merge_call [simp]: "merged (merge_call i p # es) = merge_call i p # merged es"
  "announced (merge_call i p # es) = announced es" "dialed (merge_call i p # es) = dialed es"
  by (simp_all add: merge_call_def)

lemma loop_shape_Cons:
  assumes sh: "loop_shape env (Suc j) ps s6 c s' tr n"
    and s6: "trace s6 = trace s @ pre" "list s6 = list s" "init s6 = init s"
            "background s6 = background s @ dial_log env j (id' p)"
            "timer s6 = (if stops env (AtPeerEvent j) then None else timer s)"
    and pre: "merged pre = [merge_call (init s) p]" "announced pre = [p]" "dialed pre = [id' p]"
    and hd: "timer s \<noteq> None" "\<not> stops env (AtMerge j)" "merge env j p = None"
            "\<not> throws (openConnection env j (id' p))"
  shows "loop_shape env j (p # ps) s c s' (pre @ tr) (Suc n)"
proof -
  from sh have
    a: "trace s' = trace s6 @ tr" "list s' = list s6" "init s' = init s6" "n \<le> length ps"
       "announced tr = take n ps" "dialed tr = map id' (take n ps)"
       "background s' = background s6 @ concat (map (\<lambda>k. dial_log env (Suc j + k) (id' (ps ! k))) [0..<n])"
    and m: "\<forall>k<n. merge env (Suc j + k) (ps ! k) = None \<and> \<not> stops env (AtMerge (Suc j + k))"
    and l: "\<forall>k. Suc k < n \<longrightarrow> \<not> stops env (AtPeerEvent (Suc j + k))
                          \<and> \<not> throws (openConnection env (Suc j + k) (id' (ps ! k)))"
    and t: "0 < n \<longrightarrow> timer s6 \<noteq> None"
    by (simp_all add: loop_shape_def)
  have 1: "trace s' = trace s @ pre @ tr" "list s' = list s" "init s' = init s"
          "Suc n \<le> length (p # ps)"
          "announced (pre @ tr) = take (Suc n) (p # ps)"
          "dialed (pre @ tr) = map id' (take (Suc n) (p # ps))"
    using a s6 pre by simp_all
  have 2: "background s' =
           background s @ concat (map (\<lambda>k. dial_log env (j + k) (id' ((p # ps) ! k))) [0..<Suc n])"
    using a(7) s6(4) by (simp add: map_upt_Suc del: upt_Suc)
  have 3: "\<forall>k<Suc n. merge env (j + k) ((p # ps) ! k) = None \<and> \<not> stops env (AtMerge (j + k))"
  proof (intro allI impI)
    fix k assume "k < Suc n"
    then show "merge env (j + k) ((p # ps) ! k) = None \<and> \<not> stops env (AtMerge (j + k))"
      using hd m by (cases k) simp_all
  qed
  have nostop: "0 < n \<Longrightarrow> \<not> stops env (AtPeerEvent j)"
    using t s6(5) by (auto split: if_splits)
  have 4: "\<forall>k. Suc k < Suc n \<longrightarrow> \<not> stops env (AtPeerEvent (j + k))
                          \<and> \<not> throws (openConnection env (j + k) (id' ((p # ps) ! k)))"
  proof (intro allI impI)
    fix k assume k: "Suc k < Suc n"
    show "\<not> stops env (AtPeerEvent (j + k)) \<and> \<not> throws (openConnection env (j + k) (id' ((p # ps) ! k)))"
    proof (cases k)
      case 0
      with k nostop hd(4) show ?thesis by simp
    next
      case (Suc k')
      with k l show ?thesis by simp
    qed
  qed
  have last_dial: "\<forall>k. Suc k = Suc n \<longrightarrow> \<not> throws (openConnection env (j + k) (id' ((p # ps) ! k)))"
    if "\<forall>k. Suc k = n \<longrightarrow> \<not> throws (openConnection env (Suc j + k) (id' (ps ! k)))"
  proof (intro allI impI)
    fix k assume k: "Suc k = Suc n"
    show "\<not> throws (openConnection env (j + k) (id' ((p # ps) ! k)))"
    proof (cases k)
      case 0
      with hd(4) show ?thesis by simp
    next
      case (Suc k')
      with k have "Suc k' = n" by simp
      with that have "\<not> throws (openConnection env (Suc j + k') (id' (ps ! k')))" by blast
      with Suc show ?thesis by simp
    qed
  qed
  have 5: "case c of
           Normal \<Rightarrow> Suc n = length (p # ps) \<and> merged (pre @ tr) = map (merge_call (init s)) (p # ps)
                     \<and> (\<forall>k. Suc k = Suc n \<longrightarrow> \<not> throws (openConnection env (j + k) (id' ((p # ps) ! k))))
         | Return \<Rightarrow> Suc n < length (p # ps)
                     \<and> merged (pre @ tr) = map (merge_call (init s)) (take (Suc (Suc n)) (p # ps))
                     \<and> merge env (j + Suc n) ((p # ps) ! Suc n) = None \<and> timer s' = None
                     \<and> (\<forall>k. Suc k = Suc n \<longrightarrow> \<not> throws (openConnection env (j + k) (id' ((p # ps) ! k))))
                     \<and> (timer s = None \<or> stops env (AtMerge (j + Suc n))
                          \<or> (\<exists>k. Suc k = Suc n \<and> stops env (AtPeerEvent (j + k))))
         | Throw err \<Rightarrow>
              (Suc n < length (p # ps)
                 \<and> merged (pre @ tr) = map (merge_call (init s)) (take (Suc (Suc n)) (p # ps))
                 \<and> merge env (j + Suc n) ((p # ps) ! Suc n) = Some err
                 \<and> (\<forall>k. Suc k = Suc n \<longrightarrow> \<not> throws (openConnection env (j + k) (id' ((p # ps) ! k)))))
            \<or> (\<exists>k. Suc k = Suc n \<and> merged (pre @ tr) = map (merge_call (init s)) (take (Suc n) (p # ps))
                    \<and> openConnection env (j + k) (id' ((p # ps) ! k)) = Throws err)"
  proof (cases c)
    case Normal
    with sh have "n = length ps" "merged tr = map (merge_call (init s6)) ps"
        "\<forall>k. Suc k = n \<longrightarrow> \<not> throws (openConnection env (Suc j + k) (id' (ps ! k)))"
      by (simp_all add: loop_shape_def)
    with Normal pre s6(3) last_dial show ?thesis by simp
  next
    case Return
    with sh have r: "n < length ps" "merged tr = map (merge_call (init s6)) (take (Suc n) ps)"
        "merge env (Suc j + n) (ps ! n) = None" "timer s' = None"
        "\<forall>k. Suc k = n \<longrightarrow> \<not> throws (openConnection env (Suc j + k) (id' (ps ! k)))"
        "timer s6 = None \<or> stops env (AtMerge (Suc j + n))
           \<or> (\<exists>k. Suc k = n \<and> stops env (AtPeerEvent (Suc j + k)))"
      by (simp_all add: loop_shape_def)
    have cause: "stops env (AtMerge (j + Suc n)) \<or> stops env (AtPeerEvent (j + n))"
    proof -
      from r(6) consider "timer s6 = None" | "stops env (AtMerge (Suc j + n))"
        | k where "Suc k = n" "stops env (AtPeerEvent (Suc j + k))" by auto
      then show ?thesis
      proof cases
        case 1
        with s6(5) hd(1) have st: "stops env (AtPeerEvent j)" by (auto split: if_splits)
        with nostop have "n = 0" by auto
        with st show ?thesis by simp
      next
        case 2
        then show ?thesis by simp
      next
        case 3
        then show ?thesis by auto
      qed
    qed
    from Return r(1-4) pre s6(3) last_dial[OF r(5)] cause show ?thesis by simp
  next
    case (Throw err)
    with sh have r: "(n < length ps \<and> merged tr = map (merge_call (init s6)) (take (Suc n) ps)
                 \<and> merge env (Suc j + n) (ps ! n) = Some err
                 \<and> (\<forall>k. Suc k = n \<longrightarrow> \<not> throws (openConnection env (Suc j + k) (id' (ps ! k)))))
            \<or> (\<exists>k. Suc k = n \<and> merged tr = map (merge_call (init s6)) (take n ps)
                    \<and> openConnection env (Suc j + k) (id' (ps ! k)) = Throws err)"
      by (simp add: loop_shape_def)
    then show ?thesis
    proof
      assume q: "n < length ps \<and> merged tr = map (merge_call (init s6)) (take (Suc n) ps)
                 \<and> merge env (Suc j + n) (ps ! n) = Some err
                 \<and> (\<forall>k. Suc k = n \<longrightarrow> \<not> throws (openConnection env (Suc j + k) (id' (ps ! k))))"
      then have "\<forall>k. Suc k = Suc n \<longrightarrow> \<not> throws (openConnection env (j + k) (id' ((p # ps) ! k)))"
        using last_dial by blast
      with q Throw pre s6(3) show ?thesis by simp
    next
      assume "\<exists>k. Suc k = n \<and> merged tr = map (merge_call (init s6)) (take n ps)
                    \<and> openConnection env (Suc j + k) (id' (ps ! k)) = Throws err"
      then obtain k where k: "Suc k = n" "merged tr = map (merge_call (init s6)) (take n ps)"
          "openConnection env (Suc j + k) (id' (ps ! k)) = Throws err" by blast
      from k(1) have n: "n = Suc k" by simp
      have "Suc (Suc k) = Suc n \<and> merged (pre @ tr) = map (merge_call (init s)) (take (Suc n) (p # ps))
                    \<and> openConnection env (j + Suc k) (id' ((p # ps) ! Suc k)) = Throws err"
        using k(2,3) pre s6(3) unfolding n by simp
      then have "\<exists>k. Suc k = Suc n \<and> merged (pre @ tr) = map (merge_call (init s)) (take (Suc n) (p # ps))
                    \<and> openConnection env (j + k) (id' ((p # ps) ! k)) = Throws err"
        by blast
      with Throw show ?thesis by simp
    qed
  qed
  from 1 2 3 4 5 hd(1) show ?thesis
    unfolding loop_shape_def by blast
qed

lemma tag_loop_shape:
  "\<exists>tr n. loop_shape env j ps s (fst (tag_loop env j ps s)) (snd (tag_loop env j ps s)) tr n"
proof (induction ps arbitrary: j s)
  case Nil
  show ?case by (rule exI[of _ "[]"], rule exI[of _ 0]) (simp add: loop_shape_def)
next
  case (Cons p ps)
  let ?s2 = "await env (AtMerge j) (emit (merge_call (init s) p) (log Trace [ArgStr ''Processing peer data:'', ArgPeerInfo p] s))"
  show ?case
  proof (cases "merge env j p")
    case (Some err)
    show ?thesis
      by (rule exI[of _ "[Log Trace [ArgStr ''Processing peer data:'', ArgPeerInfo p], merge_call (init s) p]"], rule exI[of _ 0])
         (simp add: loop_shape_def Some Let_def)
  next
    case None
    show ?thesis
    proof (cases "timer ?s2 = None")
      case True
      show ?thesis
        by (rule exI[of _ "[Log Trace [ArgStr ''Processing peer data:'', ArgPeerInfo p], merge_call (init s) p,
               Log Trace [ArgStr ''Timer is null, returning early'']]"], rule exI[of _ 0])
           (use True None in \<open>auto simp add: loop_shape_def Let_def split: if_splits\<close>)
    next
      case False
      let ?s5 = "log Trace [ArgStr ''About to call openConnection for peer'', ArgPeerId (id' p)]
                   (safeDispatchEvent env j p (log Trace [ArgStr ''Dispatching peer event''] ?s2))"
      define s6 where "s6 = snd (dial env j (id' p) ?s5)"
      let ?pre = "[Log Trace [ArgStr ''Processing peer data:'', ArgPeerInfo p], merge_call (init s) p,
                   Log Trace [ArgStr ''Dispatching peer event''], PeerEvent p,
                   Log Trace [ArgStr ''About to call openConnection for peer'', ArgPeerId (id' p)],
                   OpenConnection (id' p)]"
      have tm: "timer s \<noteq> None" "\<not> stops env (AtMerge j)" using False by (auto split: if_splits)
      have f6: "trace s6 = trace s @ ?pre" "list s6 = list s" "init s6 = init s"
            "background s6 = background s @ dial_log env j (id' p)"
            "timer s6 = (if stops env (AtPeerEvent j) then None else timer s)"
        using tm by (simp_all add: s6_def)
      have pre: "merged ?pre = [merge_call (init s) p]" "announced ?pre = [p]" "dialed ?pre = [id' p]"
        by simp_all
      show ?thesis
      proof (cases "throws (openConnection env j (id' p))")
        case True
        then obtain err where th: "openConnection env j (id' p) = Throws err"
          by (auto simp add: throws_iff)
        have eq: "tag_loop env j (p # ps) s = (Throw err, s6)"
          using None tm th by (auto simp add: Let_def dial_def s6_def)
        have "loop_shape env j (p # ps) s (Throw err) s6 ?pre (Suc 0)"
          unfolding loop_shape_def using tm None th f6 by simp
        then show ?thesis unfolding eq by (metis fst_conv snd_conv)
      next
        case nt: False
        have "fst (dial env j (id' p) ?s5) = None"
          using nt by (simp add: dial_result throws_iff split: dial_result.splits)
        then have d: "dial env j (id' p) ?s5 = (None, s6)"
          by (simp add: s6_def prod_eq_iff)
        have eq: "tag_loop env j (p # ps) s = tag_loop env (Suc j) ps s6"
          using None tm d by (auto simp add: Let_def)
        from Cons.IH[of "Suc j" s6] obtain tr n where
          sh: "loop_shape env (Suc j) ps s6 (fst (tag_loop env (Suc j) ps s6)) (snd (tag_loop env (Suc j) ps s6)) tr n"
          by blast
        have "loop_shape env j (p # ps) s (fst (tag_loop env j (p # ps) s)) (snd (tag_loop env j (p # ps) s)) (?pre @ tr) (Suc n)"
          unfolding eq by (rule loop_shape_Cons[OF sh f6 pre tm None nt])
        then show ?thesis by blast
      qed
    qed
  qed
qed

subsection \<open>The first loop; the run as a whole\<close>

lemma resolve1_Inl_cases:
  "resolve1 env k x = Inl err \<longleftrightarrow>
     peerIdFromString env x = Inl err \<or> (\<exists>pid. peerIdFromString env x = Inr pid \<and> findPeer env k pid = Inl err)"
  by (auto simp: resolve1_def split: sum.splits)

lemma resolve_one_shape:
  "\<exists>tr. trace (resolve_one env k x s) = trace s @ tr
      \<and> merged tr = [] \<and> announced tr = [] \<and> dialed tr = []
      \<and> (\<forall>err. resolve1 env k x = Inl err \<longrightarrow>
            Log Err [ArgStr ''Could not lookup  multiaddrs for bootstrap peer'', ArgStr x, ArgErr err] \<in> set tr)"
  by (cases "peerIdFromString env x"; cases "findPeer env k (projr (peerIdFromString env x))")
     (simp_all add: resolve_one_def resolve1_def Let_def)

lemma resolve_one_fields [simp]:
  "list (resolve_one env k x s) = list s @ (case resolve1 env k x of Inl err \<Rightarrow> [] | Inr p \<Rightarrow> [p])"
  "init (resolve_one env k x s) = init s"
  "background (resolve_one env k x s) = background s"
  by (simp_all add: resolve_one_def resolve1_def Let_def split: sum.splits)

lemma resolve_one_timer:
  "timer (resolve_one env k x s) =
     (if (\<exists>pid. peerIdFromString env x = Inr pid) \<and> stops env (AtFindPeer k) then None else timer s)"
  by (simp add: resolve_one_def Let_def split: sum.splits)

lemma resolve_loop_fields [simp]:
  "list (resolve_loop env k ids s) = list s @ resolved env k ids"
  "init (resolve_loop env k ids s) = init s"
  "background (resolve_loop env k ids s) = background s"
  by (induction ids arbitrary: k s) (simp_all split: sum.splits)

lemma resolve_loop_timer_None:
  "timer s = None \<Longrightarrow> timer (resolve_loop env k ids s) = None"
  by (induction ids arbitrary: k s) (simp_all add: resolve_one_timer)

lemma resolve_loop_timer_stop:
  "i < length ids \<Longrightarrow> peerIdFromString env (ids ! i) = Inr pid \<Longrightarrow> stops env (AtFindPeer (k + i))
     \<Longrightarrow> timer (resolve_loop env k ids s) = None"
proof (induction ids arbitrary: k s i)
  case Nil
  then show ?case by simp
next
  case (Cons x xs)
  show ?case
  proof (cases i)
    case 0
    with Cons.prems show ?thesis by (simp add: resolve_loop_timer_None resolve_one_timer)
  next
    case (Suc i')
    with Cons.prems Cons.IH[of i' "Suc k"] show ?thesis by simp
  qed
qed

lemma resolve_loop_timer_same:
  "\<forall>i. \<not> stops env (AtFindPeer i) \<Longrightarrow> timer (resolve_loop env k ids s) = timer s"
  by (induction ids arbitrary: k s) (simp_all add: resolve_one_timer)

lemma resolve_loop_shape:
  "\<exists>tr. trace (resolve_loop env k ids s) = trace s @ tr
      \<and> merged tr = [] \<and> announced tr = [] \<and> dialed tr = []
      \<and> (\<forall>i<length ids. \<forall>err. resolve1 env (k + i) (ids ! i) = Inl err \<longrightarrow>
            Log Err [ArgStr ''Could not lookup  multiaddrs for bootstrap peer'', ArgStr (ids ! i), ArgErr err] \<in> set tr)"
proof (induction ids arbitrary: k s)
  case Nil
  show ?case by simp
next
  case (Cons x xs)
  obtain tr1 where 1: "trace (resolve_one env k x s) = trace s @ tr1"
      "merged tr1 = []" "announced tr1 = []" "dialed tr1 = []"
      "\<forall>err. resolve1 env k x = Inl err \<longrightarrow>
            Log Err [ArgStr ''Could not lookup  multiaddrs for bootstrap peer'', ArgStr x, ArgErr err] \<in> set tr1"
    using resolve_one_shape[of env k x s] by blast
  obtain tr2 where 2: "trace (resolve_loop env (Suc k) xs (resolve_one env k x s)) = trace (resolve_one env k x s) @ tr2"
      "merged tr2 = []" "announced tr2 = []" "dialed tr2 = []"
      "\<forall>i<length xs. \<forall>err. resolve1 env (Suc k + i) (xs ! i) = Inl err \<longrightarrow>
            Log Err [ArgStr ''Could not lookup  multiaddrs for bootstrap peer'', ArgStr (xs ! i), ArgErr err] \<in> set tr2"
    using Cons.IH[of "Suc k" "resolve_one env k x s"] by blast
  have "\<forall>i<length (x # xs). \<forall>err. resolve1 env (k + i) ((x # xs) ! i) = Inl err \<longrightarrow>
            Log Err [ArgStr ''Could not lookup  multiaddrs for bootstrap peer'', ArgStr ((x # xs) ! i), ArgErr err] \<in> set (tr1 @ tr2)"
  proof (intro allI impI)
    fix i err assume i: "i < length (x # xs)" and e: "resolve1 env (k + i) ((x # xs) ! i) = Inl err"
    show "Log Err [ArgStr ''Could not lookup  multiaddrs for bootstrap peer'', ArgStr ((x # xs) ! i), ArgErr err] \<in> set (tr1 @ tr2)"
    proof (cases i)
      case 0
      with e 1(5) show ?thesis by simp
    next
      case (Suc i')
      with i e 2(5) show ?thesis by simp
    qed
  qed
  with 1 2 show ?case by (intro exI[of _ "tr1 @ tr2"]) simp
qed

lemma pipeline_shape:
  assumes armed: "timer s \<noteq> None"
    and net: "getNetwork env = Inr network" "Some network = chainId (init s)"
    and con: "ContractClass env = None"
    and ids: "getAllPeerIds env = Inr peerIds"
  shows "\<exists>s8 tr0 c s' tr n.
           trace s8 = trace s @ tr0
         \<and> merged tr0 = [] \<and> announced tr0 = [] \<and> dialed tr0 = []
         \<and> (\<forall>i<length peerIds. \<forall>err. resolve1 env i (peerIds ! i) = Inl err \<longrightarrow>
              Log Err [ArgStr ''Could not lookup  multiaddrs for bootstrap peer'', ArgStr (peerIds ! i), ArgErr err] \<in> set tr0)
         \<and> list s8 = list s @ resolved env 0 peerIds \<and> init s8 = init s
         \<and> background s8 = background s
         \<and> (stops env AtGetNetwork \<or> stops env AtGetAllPeerIds
              \<or> (\<exists>i<length peerIds. \<exists>pid. peerIdFromString env (peerIds ! i) = Inr pid \<and> stops env (AtFindPeer i))
              \<longrightarrow> timer s8 = None)
         \<and> ((\<forall>p. \<not> stops env p) \<longrightarrow> timer s8 = timer s)
         \<and> tag_loop env 0 (list s8) s8 = (c, s')
         \<and> loop_shape env 0 (list s8) s8 c s' tr n
         \<and> discoverBootstrapPeers env s =
              (None, case c of Throw err \<Rightarrow> log Err [ArgStr ''Could not discover bootstrap peers'', ArgErr err] s'
                              | _ \<Rightarrow> s')"
proof -
  define s2 where "s2 = await env AtGetNetwork (emit GetNetwork
      (log Trace [ArgStr ''Getting network from ethereum provider'']
        (log Trace [ArgStr ''_discoverBootstrapPeers called''] s)))"
  define s6 where "s6 = log Trace [ArgStr ''Processing peer IDs:'', ArgStrs peerIds]
      (log Info [ArgStr ''Found %d bootstrap peers ids'', ArgNum (length peerIds), ArgStrs peerIds]
        (await env AtGetAllPeerIds (emit (GetAllPeerIds (contractIndex (init s2)))
          (log Trace [ArgStr ''Calling getAllPeerIds'']
            (emit (NewContract (contractAddress (init s2)))
              (log Trace [ArgStr ''Creating contract instance''] s2))))))"
  define s7 where "s7 = resolve_loop env 0 peerIds s6"
  define s8 where "s8 = log Trace [ArgStr ''Processing peer list, count:'', ArgNum (length (list s7))] s7"
  obtain c s' where cs: "tag_loop env 0 (list s8) s8 = (c, s')" by (cases "tag_loop env 0 (list s8) s8")
  obtain tr n where sh: "loop_shape env 0 (list s8) s8 c s' tr n"
    using tag_loop_shape[of env 0 "list s8" s8] cs by auto
  have tb: "try_block env s2 = (c, s')"
    using con ids cs by (simp add: try_block_def Let_def s6_def s7_def s8_def)
  have i2: "init s2 = init s" by (simp add: s2_def)
  have res: "discoverBootstrapPeers env s =
              (None, case c of Throw err \<Rightarrow> log Err [ArgStr ''Could not discover bootstrap peers'', ArgErr err] s'
                              | _ \<Rightarrow> s')"
    using armed net tb i2 unfolding discoverBootstrapPeers_def Let_def s2_def[symmetric]
    by (auto split: completion.splits)
  obtain trr where trr: "trace s7 = trace s6 @ trr" "merged trr = []" "announced trr = []" "dialed trr = []"
      "\<forall>i<length peerIds. \<forall>err. resolve1 env (0 + i) (peerIds ! i) = Inl err \<longrightarrow>
            Log Err [ArgStr ''Could not lookup  multiaddrs for bootstrap peer'', ArgStr (peerIds ! i), ArgErr err] \<in> set trr"
    using resolve_loop_shape[of env 0 peerIds s6] unfolding s7_def by blast
  define tr0 where "tr0 = [Log Trace [ArgStr ''_discoverBootstrapPeers called''],
      Log Trace [ArgStr ''Getting network from ethereum provider''], GetNetwork,
      Log Trace [ArgStr ''Creating contract instance''], NewContract (contractAddress (init s)),
      Log Trace [ArgStr ''Calling getAllPeerIds''], GetAllPeerIds (contractIndex (init s)),
      Log Info [ArgStr ''Found %d bootstrap peers ids'', ArgNum (length peerIds), ArgStrs peerIds],
      Log Trace [ArgStr ''Processing peer IDs:'', ArgStrs peerIds]] @ trr @
      [Log Trace [ArgStr ''Processing peer list, count:'', ArgNum (length (list s7))]]"
  have t8: "trace s8 = trace s @ tr0"
    by (simp add: s8_def trr(1) s6_def s2_def tr0_def)
  have q: "merged tr0 = []" "announced tr0 = []" "dialed tr0 = []"
    using trr by (simp_all add: tr0_def)
  have lg: "\<forall>i<length peerIds. \<forall>err. resolve1 env i (peerIds ! i) = Inl err \<longrightarrow>
              Log Err [ArgStr ''Could not lookup  multiaddrs for bootstrap peer'', ArgStr (peerIds ! i), ArgErr err] \<in> set tr0"
    using trr(5) by (simp add: tr0_def)
  have l8: "list s8 = list s @ resolved env 0 peerIds" "init s8 = init s"
      "background s8 = background s"
    by (simp_all add: s8_def s7_def s6_def s2_def)
  have t6: "stops env AtGetNetwork \<or> stops env AtGetAllPeerIds \<Longrightarrow> timer s6 = None"
    by (auto simp add: s6_def s2_def)
  have tm1: "stops env AtGetNetwork \<or> stops env AtGetAllPeerIds
              \<or> (\<exists>i<length peerIds. \<exists>pid. peerIdFromString env (peerIds ! i) = Inr pid \<and> stops env (AtFindPeer i))
              \<longrightarrow> timer s8 = None"
    using t6 resolve_loop_timer_None[of s6 env 0 peerIds] resolve_loop_timer_stop[of _ peerIds env _ 0 s6]
    by (auto simp add: s8_def s7_def)
  have tm2: "(\<forall>p. \<not> stops env p) \<longrightarrow> timer s8 = timer s"
    using resolve_loop_timer_same[of env 0 peerIds s6]
    by (simp add: s8_def s7_def) (simp add: s6_def s2_def)
  show ?thesis
    using t8 q lg l8 tm1 tm2 cs sh res by blast
qed

lemma run_events_eq:
  "trace (snd (discoverBootstrapPeers env s)) = trace s @ tr \<Longrightarrow> run_events env s = tr"
  by (simp add: run_events_def)

lemma run_trace:
  "trace (snd (discoverBootstrapPeers env s)) = trace s @ run_events env s"
proof -
  have "\<exists>tr. trace (snd (discoverBootstrapPeers env s)) = trace s @ tr"
  proof (cases "timer s = None \<or> (\<exists>e. getNetwork env = Inl e) \<or>
                (\<exists>n. getNetwork env = Inr n \<and> Some n \<noteq> chainId (init s)) \<or>
                (\<exists>e. ContractClass env = Some e) \<or> (\<exists>e. getAllPeerIds env = Inl e)")
    case True
    then show ?thesis
      by (auto simp add: discoverBootstrapPeers_def try_block_def Let_def split: sum.splits option.splits)
  next
    case False
    then obtain n ids where h: "timer s \<noteq> None" "getNetwork env = Inr n" "Some n = chainId (init s)"
        "ContractClass env = None" "getAllPeerIds env = Inr ids"
      by (cases "getNetwork env"; cases "getAllPeerIds env"; cases "ContractClass env") auto
    from pipeline_shape[OF h] obtain s8 tr0 c s' tr m where
      p: "trace s8 = trace s @ tr0" "loop_shape env 0 (list s8) s8 c s' tr m"
         "discoverBootstrapPeers env s =
              (None, case c of Throw err \<Rightarrow> log Err [ArgStr ''Could not discover bootstrap peers'', ArgErr err] s'
                              | _ \<Rightarrow> s')"
      by blast
    then show ?thesis by (cases c) (simp_all add: loop_shape_def)
  qed
  then show ?thesis by (auto simp add: run_events_def)
qed

lemma early_exit:
  assumes "timer s = None \<or> (\<exists>e. getNetwork env = Inl e) \<or>
           (\<exists>n. getNetwork env = Inr n \<and> Some n \<noteq> chainId (init s)) \<or>
           (\<exists>e. ContractClass env = Some e) \<or> (\<exists>e. getAllPeerIds env = Inl e)"
  shows "merged (run_events env s) = [] \<and> announced (run_events env s) = []
       \<and> dialed (run_events env s) = [] \<and> list (snd (discoverBootstrapPeers env s)) = list s
       \<and> run_background env s = []"
proof -
  have "\<exists>tr. trace (snd (discoverBootstrapPeers env s)) = trace s @ tr
          \<and> merged tr = [] \<and> announced tr = [] \<and> dialed tr = []
          \<and> list (snd (discoverBootstrapPeers env s)) = list s
          \<and> background (snd (discoverBootstrapPeers env s)) = background s"
    using assms
    by (auto simp add: discoverBootstrapPeers_def try_block_def Let_def split: sum.splits option.splits)
  then show ?thesis using run_trace[of env s] by (auto simp add: run_background_def)
qed

lemma full_run:
  assumes armed: "timer s \<noteq> None"
    and net: "getNetwork env = Inr network" "Some network = chainId (init s)"
    and con: "ContractClass env = None"
    and ids: "getAllPeerIds env = Inr peerIds"
  shows "\<exists>s8 tr0 c s' tr n.
           merged tr0 = [] \<and> announced tr0 = [] \<and> dialed tr0 = []
         \<and> (\<forall>i<length peerIds. \<forall>err. resolve1 env i (peerIds ! i) = Inl err \<longrightarrow>
              Log Err [ArgStr ''Could not lookup  multiaddrs for bootstrap peer'', ArgStr (peerIds ! i), ArgErr err] \<in> set tr0)
         \<and> list s8 = list s @ resolved env 0 peerIds \<and> init s8 = init s
         \<and> (stops env AtGetNetwork \<or> stops env AtGetAllPeerIds
              \<or> (\<exists>i<length peerIds. \<exists>pid. peerIdFromString env (peerIds ! i) = Inr pid \<and> stops env (AtFindPeer i))
              \<longrightarrow> timer s8 = None)
         \<and> ((\<forall>p. \<not> stops env p) \<longrightarrow> timer s8 = timer s)
         \<and> loop_shape env 0 (list s8) s8 c s' tr n
         \<and> fst (discoverBootstrapPeers env s) = None
         \<and> list (snd (discoverBootstrapPeers env s)) = list s @ resolved env 0 peerIds
         \<and> timer (snd (discoverBootstrapPeers env s)) = timer s'
         \<and> run_background env s =
              concat (map (\<lambda>k. dial_log env k (id' ((list s @ resolved env 0 peerIds) ! k))) [0..<n])
         \<and> run_events env s =
              tr0 @ tr @ (case c of Throw err \<Rightarrow> [Log Err [ArgStr ''Could not discover bootstrap peers'', ArgErr err]]
                                   | _ \<Rightarrow> [])"
proof -
  from pipeline_shape[OF assms] obtain s8 tr0 c s' tr n where
    p: "trace s8 = trace s @ tr0" "merged tr0 = []" "announced tr0 = []" "dialed tr0 = []"
       "\<forall>i<length peerIds. \<forall>err. resolve1 env i (peerIds ! i) = Inl err \<longrightarrow>
              Log Err [ArgStr ''Could not lookup  multiaddrs for bootstrap peer'', ArgStr (peerIds ! i), ArgErr err] \<in> set tr0"
       "list s8 = list s @ resolved env 0 peerIds" "init s8 = init s"
       "stops env AtGetNetwork \<or> stops env AtGetAllPeerIds
              \<or> (\<exists>i<length peerIds. \<exists>pid. peerIdFromString env (peerIds ! i) = Inr pid \<and> stops env (AtFindPeer i))
              \<longrightarrow> timer s8 = None"
       "(\<forall>p. \<not> stops env p) \<longrightarrow> timer s8 = timer s"
       "loop_shape env 0 (list s8) s8 c s' tr n"
       "discoverBootstrapPeers env s =
              (None, case c of Throw err \<Rightarrow> log Err [ArgStr ''Could not discover bootstrap peers'', ArgErr err] s'
                              | _ \<Rightarrow> s')"
       "background s8 = background s"
    by blast
  have t: "trace s' = trace s @ tr0 @ tr" "list s' = list s8"
    using p(1,10) by (simp_all add: loop_shape_def)
  have bg: "background s' =
      background s @ concat (map (\<lambda>k. dial_log env k (id' ((list s @ resolved env 0 peerIds) ! k))) [0..<n])"
    using p(6,10,12) by (simp add: loop_shape_def)
  have rb: "run_background env s =
      concat (map (\<lambda>k. dial_log env k (id' ((list s @ resolved env 0 peerIds) ! k))) [0..<n])"
    by (cases c; simp add: run_background_def p(11) bg)
  have r: "run_events env s =
              tr0 @ tr @ (case c of Throw err \<Rightarrow> [Log Err [ArgStr ''Could not discover bootstrap peers'', ArgErr err]]
                                   | _ \<Rightarrow> [])"
    by (rule run_events_eq) (cases c; simp add: p(11) t)
  have f: "fst (discoverBootstrapPeers env s) = None"
       "list (snd (discoverBootstrapPeers env s)) = list s @ resolved env 0 peerIds"
       "timer (snd (discoverBootstrapPeers env s)) = timer s'"
    by (cases c; simp add: p(11) t p(6))+
  show ?thesis using p(2-10) r f rb by blast
qed

subsection \<open>Counting executions; timers\<close>

subsection \<open>Counting executions; timers\<close>

lemma executions_emit: "executions (emit e s) = (if e = called then Suc (executions s) else executions s)"
  by (simp add: executions_def)

lemma executions_frame [simp]:
  "executions (stop s) = executions s"
  "executions (await env p s) = executions s" "executions (snd (dial env j q s)) = executions s"
  "executions (safeDispatchEvent env j pd s) = executions s"
  "executions (s\<lparr>background := b\<rparr>) = executions s"
  "executions (s\<lparr>list := l\<rparr>) = executions s" "executions (s\<lparr>now := t\<rparr>) = executions s"
  "executions (s\<lparr>pending := ps\<rparr>) = executions s" "executions (s\<lparr>timer := h\<rparr>) = executions s"
  "executions (s\<lparr>next_handle := nh\<rparr>) = executions s"
  by (simp_all add: executions_def called_def)

lemma executions_merge_call [simp]: "executions (emit (merge_call i p) s) = executions s"
  by (simp add: executions_def merge_call_def called_def)

lemma executions_resolve_one [simp]: "executions (resolve_one env k x s) = executions s"
  by (simp add: resolve_one_def Let_def log_def executions_emit called_def split: sum.splits)

lemma executions_resolve_loop [simp]: "executions (resolve_loop env k ids s) = executions s"
  by (induction ids arbitrary: k s) simp_all

text \<open>
  What \<open>stop\<close>, the calls other than the entry line of the pipeline, and the continuations of
  the dials preserve, the second loop preserves.
\<close>

lemma tag_loop_preserves:
  assumes st: "\<And>t. P t \<Longrightarrow> P (stop t)"
    and em: "\<And>e t. e \<noteq> called \<Longrightarrow> P t \<Longrightarrow> P (emit e t)"
    and bg: "\<And>b t. P t \<Longrightarrow> P (t\<lparr>background := b\<rparr>)"
  shows "P s \<Longrightarrow> P (snd (tag_loop env j ps s))"
proof (induction ps arbitrary: j s)
  case Nil
  then show ?case by simp
next
  case (Cons p ps)
  define s1 where "s1 = log Trace [ArgStr ''Processing peer data:'', ArgPeerInfo p] s"
  define s2 where "s2 = await env (AtMerge j) (emit (merge_call (init s1) p) s1)"
  define s5 where "s5 = log Trace [ArgStr ''About to call openConnection for peer'', ArgPeerId (id' p)]
      (safeDispatchEvent env j p (log Trace [ArgStr ''Dispatching peer event''] s2))"
  have step: "tag_loop env j (p # ps) s =
      (case merge env j p of
         Some err \<Rightarrow> (Throw err, s2)
       | None \<Rightarrow>
           if timer s2 = None
           then (Return, log Trace [ArgStr ''Timer is null, returning early''] s2)
           else (case dial env j (id' p) s5 of
                   (Some err, s6) \<Rightarrow> (Throw err, s6)
                 | (None, s6) \<Rightarrow> tag_loop env (Suc j) ps s6))"
    by (simp only: tag_loop.simps Let_def s1_def s2_def s5_def)
  have P2: "P s2"
    using Cons.prems st em
    by (simp add: s1_def s2_def await_def log_def merge_call_def called_def)
  have P5: "P s5"
    using P2 st em
    by (simp add: s5_def safeDispatchEvent_def Let_def log_def called_def)
  have P6: "P (snd (dial env j (id' p) s5))"
    using P5 em bg by (simp add: dial_def Let_def called_def split: dial_result.splits)
  show ?case
  proof (cases "merge env j p")
    case (Some err)
    then show ?thesis using P2 by (simp add: step del: tag_loop.simps)
  next
    case None
    show ?thesis
    proof (cases "timer s2 = None")
      case True
      have "P (log Trace [ArgStr ''Timer is null, returning early''] s2)"
        using P2 em by (simp add: log_def called_def)
      with None True show ?thesis by (simp add: step del: tag_loop.simps)
    next
      case False
      show ?thesis
      proof (cases "dial env j (id' p) s5")
        case (Pair r s6)
        with P6 have P6': "P s6" by simp
        show ?thesis
        proof (cases r)
          case None': None
          have "tag_loop env j (p # ps) s = tag_loop env (Suc j) ps s6"
            using None False Pair None' by (auto simp add: step simp del: tag_loop.simps)
          with Cons.IH[OF P6'] show ?thesis by simp
        next
          case (Some err)
          have "tag_loop env j (p # ps) s = (Throw err, s6)"
            using None False Pair Some by (auto simp add: step simp del: tag_loop.simps)
          with P6' show ?thesis by simp
        qed
      qed
    qed
  qed
qed

lemma executions_tag_loop [simp]: "executions (snd (tag_loop env j ps s)) = executions s"
  by (rule tag_loop_preserves[where P = "\<lambda>t. executions t = executions s"])
     (simp_all add: executions_emit)

lemma executions_try_block [simp]: "executions (snd (try_block env s)) = executions s"
  by (simp add: try_block_def Let_def log_def executions_emit called_def split: option.splits sum.splits)

lemma executions_pipeline: "executions (snd (discoverBootstrapPeers env s)) = Suc (executions s)"
proof -
  have 1: "executions (log Trace [ArgStr ''_discoverBootstrapPeers called''] s) = Suc (executions s)"
    by (simp add: log_def executions_emit called_def)
  show ?thesis
    unfolding discoverBootstrapPeers_def Let_def
    by (auto simp add: 1 log_def executions_emit called_def
          split: option.splits sum.splits prod.splits completion.splits
          dest: arg_cong[where f = "\<lambda>r. executions (snd r)"])
qed

lemma executions_callback: "executions (timer_callback env s) = Suc (executions s)"
  using executions_pipeline[of env s]
  by (auto simp add: timer_callback_def log_def executions_emit called_def split: prod.splits option.splits)

text \<open>A run arms no timer.\<close>

lemma pending_frame [simp]:
  "pending (await env p s) = (if stops env p then pending (stop s) else pending s)"
  "pending (safeDispatchEvent env j pd s) =
     (if stops env (AtPeerEvent j) then pending (stop s) else pending s)"
  by (simp_all add: await_def safeDispatchEvent_def Let_def stop_def clearTimeout_def split: option.splits)

lemma pending_stop_Nil: "pending s = [] \<Longrightarrow> pending (stop s) = []"
  by (simp add: stop_def clearTimeout_def Let_def split: option.splits)

lemma pending_resolve_one: "pending s = [] \<Longrightarrow> pending (resolve_one env k x s) = []"
  by (simp add: resolve_one_def Let_def pending_stop_Nil split: sum.splits)

lemma pending_resolve_loop: "pending s = [] \<Longrightarrow> pending (resolve_loop env k ids s) = []"
  by (induction ids arbitrary: k s) (simp_all add: pending_resolve_one)

lemma pending_tag_loop: "pending s = [] \<Longrightarrow> pending (snd (tag_loop env j ps s)) = []"
  by (rule tag_loop_preserves[where P = "\<lambda>t. pending t = []"])
     (simp_all add: pending_stop_Nil)

lemma pending_try_block: "pending s = [] \<Longrightarrow> pending (snd (try_block env s)) = []"
  by (simp add: try_block_def Let_def pending_stop_Nil pending_tag_loop pending_resolve_loop
        split: option.splits sum.splits)

lemma pending_pipeline: "pending s = [] \<Longrightarrow> pending (snd (discoverBootstrapPeers env s)) = []"
proof -
  assume p: "pending s = []"
  have "pending (snd (try_block env t)) = []" if "pending t = []" for t
    using that by (rule pending_try_block)
  then show ?thesis using p
    unfolding discoverBootstrapPeers_def Let_def
    by (auto simp add: pending_stop_Nil split: option.splits sum.splits prod.splits completion.splits
          dest: arg_cong[where f = "\<lambda>r. pending (snd r)"])
qed

lemma pending_callback: "pending s = [] \<Longrightarrow> pending (timer_callback env s) = []"
  using pending_pipeline[of s env]
  by (auto simp add: timer_callback_def split: prod.splits option.splits)

lemma start_unarmed:
  "\<not> isStarted s \<Longrightarrow>
     timer (start s) = Some (Suc (next_handle s))
   \<and> pending (start s) = pending s @ [(Suc (next_handle s), now s + timeout s)]
   \<and> now (start s) = now s \<and> timeout (start s) = timeout s \<and> list (start s) = list s
   \<and> executions (start s) = executions s"
  by (simp add: start_def Let_def setTimeout_def log_def executions_emit called_def)

lemma start_armed: "isStarted s \<Longrightarrow> start s = s"
  by (simp add: start_def)

lemma isStarted_start: "isStarted (start s)"
proof (cases "isStarted s")
  case True
  then show ?thesis by (simp add: start_armed)
next
  case False
  from start_unarmed[OF False] show ?thesis by (simp add: isStarted_def)
qed

lemma tick_none_due:
  "\<forall>(h, t) \<in> set (pending s). now s + d < t \<Longrightarrow> tick envs d s = s\<lparr>now := now s + d\<rparr>"
proof -
  assume a: "\<forall>(h, t) \<in> set (pending s). now s + d < t"
  have "filter (\<lambda>(h, t). t \<le> now s + d) (pending s) = []"
    using a by (auto simp add: filter_empty_conv)
  then show ?thesis by (simp add: tick_def Let_def)
qed

lemma tick_one_due:
  "pending s = [(h, t)] \<Longrightarrow> t \<le> now s + d \<Longrightarrow>
     tick envs d s = (timer_callback (envs h) (s\<lparr>pending := [], now := max (now s) t\<rparr>))\<lparr>now := now s + d\<rparr>"
  by (simp add: tick_def Let_def)

lemma tick_fires_once:
  assumes "pending s = [(h, t)]" and "t \<le> now s + d"
  shows "executions (tick envs d s) = Suc (executions s)" and "pending (tick envs d s) = []"
  using assms pending_callback[of "s\<lparr>pending := [], now := max (now s) t\<rparr>" "envs h"]
  by (simp_all add: tick_one_due executions_callback)

lemma tick_idle:
  "pending s = [] \<Longrightarrow> executions (tick envs d s) = executions s"
  by (simp add: tick_none_due)

subsection \<open>Evaluation\<close>

lemmas fixture_defs = armed_def fresh_def stubs_def goodInit_def mockPeerIds_def info_def

lemmas run_defs = run_events_def discoverBootstrapPeers_def try_block_def Let_def resolve_one_def
  merge_call_def await_def stop_def clearTimeout_def safeDispatchEvent_def dial_def dial_log_def
  run_background_def log_def emit_def

subsection \<open>The shape of a run that reaches the second loop\<close>

lemma loop_shape_cases:
  assumes sh: "loop_shape env j ps s c s' tr n"
  shows "merged tr = map (merge_call (init s)) (take (length (merged tr)) ps)"
    and "(\<forall>k<n. \<not> throws (openConnection env (j + k) (id' (ps ! k))))
          \<and> (c = Normal \<and> length (merged tr) = n \<and> n = length ps
             \<or> c = Return \<and> length (merged tr) = Suc n \<and> n < length ps
                  \<and> merge env (j + n) (ps ! n) = None \<and> timer s' = None
                  \<and> (timer s = None \<or> stops env (AtMerge (j + n))
                       \<or> (\<exists>k. Suc k = n \<and> stops env (AtPeerEvent (j + k))))
             \<or> (\<exists>err. c = Throw err \<and> length (merged tr) = Suc n \<and> n < length ps
                  \<and> merge env (j + n) (ps ! n) = Some err))
        \<or> (\<exists>err k. c = Throw err \<and> length (merged tr) = n \<and> n = Suc k
                  \<and> openConnection env (j + k) (id' (ps ! k)) = Throws err)"
proof -
  from sh have
    n: "n \<le> length ps"
    and ls: "\<forall>k. Suc k < n \<longrightarrow> \<not> throws (openConnection env (j + k) (id' (ps ! k)))"
    by (simp_all add: loop_shape_def)
  have before: "\<forall>k<n. \<not> throws (openConnection env (j + k) (id' (ps ! k)))"
    if l: "\<forall>i. Suc i = n \<longrightarrow> \<not> throws (openConnection env (j + i) (id' (ps ! i)))"
  proof (intro allI impI)
    fix k assume k: "k < n"
    show "\<not> throws (openConnection env (j + k) (id' (ps ! k)))"
    proof (cases "Suc k = n")
      case True
      with l show ?thesis by blast
    next
      case False
      with k have "Suc k < n" by simp
      with ls show ?thesis by blast
    qed
  qed
  show "merged tr = map (merge_call (init s)) (take (length (merged tr)) ps)"
  proof (cases c)
    case Normal
    with sh have "merged tr = map (merge_call (init s)) ps" by (simp add: loop_shape_def)
    then show ?thesis by simp
  next
    case Return
    with sh have "merged tr = map (merge_call (init s)) (take (Suc n) ps)" "n < length ps"
      by (simp_all add: loop_shape_def)
    then show ?thesis by simp
  next
    case (Throw err)
    with sh have "merged tr = map (merge_call (init s)) (take (Suc n) ps) \<and> n < length ps
        \<or> merged tr = map (merge_call (init s)) (take n ps)"
      by (auto simp add: loop_shape_def)
    with n show ?thesis by auto
  qed
  show "(\<forall>k<n. \<not> throws (openConnection env (j + k) (id' (ps ! k))))
          \<and> (c = Normal \<and> length (merged tr) = n \<and> n = length ps
             \<or> c = Return \<and> length (merged tr) = Suc n \<and> n < length ps
                  \<and> merge env (j + n) (ps ! n) = None \<and> timer s' = None
                  \<and> (timer s = None \<or> stops env (AtMerge (j + n))
                       \<or> (\<exists>k. Suc k = n \<and> stops env (AtPeerEvent (j + k))))
             \<or> (\<exists>err. c = Throw err \<and> length (merged tr) = Suc n \<and> n < length ps
                  \<and> merge env (j + n) (ps ! n) = Some err))
        \<or> (\<exists>err k. c = Throw err \<and> length (merged tr) = n \<and> n = Suc k
                  \<and> openConnection env (j + k) (id' (ps ! k)) = Throws err)"
  proof (cases c)
    case Normal
    with sh have f: "n = length ps" "merged tr = map (merge_call (init s)) ps"
        "\<forall>k. Suc k = n \<longrightarrow> \<not> throws (openConnection env (j + k) (id' (ps ! k)))"
      by (simp_all add: loop_shape_def)
    from f(1,2) have "length (merged tr) = n" by simp
    with Normal f(1) before[OF f(3)] show ?thesis by blast
  next
    case Return
    with sh have f: "n < length ps" "merged tr = map (merge_call (init s)) (take (Suc n) ps)"
        "merge env (j + n) (ps ! n) = None" "timer s' = None"
        "\<forall>k. Suc k = n \<longrightarrow> \<not> throws (openConnection env (j + k) (id' (ps ! k)))"
        "timer s = None \<or> stops env (AtMerge (j + n))
           \<or> (\<exists>k. Suc k = n \<and> stops env (AtPeerEvent (j + k)))"
      by (simp_all add: loop_shape_def)
    from f(1,2) have "length (merged tr) = Suc n" by simp
    with Return f(1,3,4,6) before[OF f(5)] show ?thesis by blast
  next
    case (Throw err)
    with sh have f: "(n < length ps \<and> merged tr = map (merge_call (init s)) (take (Suc n) ps)
                 \<and> merge env (j + n) (ps ! n) = Some err
                 \<and> (\<forall>k. Suc k = n \<longrightarrow> \<not> throws (openConnection env (j + k) (id' (ps ! k)))))
            \<or> (\<exists>k. Suc k = n \<and> merged tr = map (merge_call (init s)) (take n ps)
                    \<and> openConnection env (j + k) (id' (ps ! k)) = Throws err)"
      by (simp add: loop_shape_def)
    then show ?thesis
    proof
      assume g: "n < length ps \<and> merged tr = map (merge_call (init s)) (take (Suc n) ps)
                 \<and> merge env (j + n) (ps ! n) = Some err
                 \<and> (\<forall>k. Suc k = n \<longrightarrow> \<not> throws (openConnection env (j + k) (id' (ps ! k))))"
      then have "length (merged tr) = Suc n" by simp
      with g Throw before show ?thesis by blast
    next
      assume "\<exists>k. Suc k = n \<and> merged tr = map (merge_call (init s)) (take n ps)
                    \<and> openConnection env (j + k) (id' (ps ! k)) = Throws err"
      then obtain k where g: "n = Suc k" "merged tr = map (merge_call (init s)) (take n ps)"
          "openConnection env (j + k) (id' (ps ! k)) = Throws err" by auto
      from g(2) n have "length (merged tr) = n" by simp
      with g(1,3) Throw show ?thesis by blast
    qed
  qed
qed

lemma run_shape:
  assumes armed: "timer s \<noteq> None"
    and net: "getNetwork env = Inr network" "Some network = chainId (init s)"
    and con: "ContractClass env = None"
    and ids: "getAllPeerIds env = Inr peerIds"
  defines "L \<equiv> list s @ resolved env 0 peerIds"
    and "M \<equiv> length (merged (run_events env s))"
    and "N \<equiv> length (announced (run_events env s))"
  shows "list (snd (discoverBootstrapPeers env s)) = L"
    and "merged (run_events env s) = map (merge_call (init s)) (take M L)"
    and "announced (run_events env s) = take N L"
    and "dialed (run_events env s) = map id' (take N L)"
    and "N \<le> length L"
    and "\<forall>i<length peerIds. \<forall>err. resolve1 env i (peerIds ! i) = Inl err \<longrightarrow>
           Log Err [ArgStr ''Could not lookup  multiaddrs for bootstrap peer'',
                    ArgStr (peerIds ! i), ArgErr err] \<in> set (run_events env s)"
    and "run_background env s = concat (map (\<lambda>k. dial_log env k (id' (L ! k))) [0..<N])"
    and "\<forall>k<N. merge env k (L ! k) = None \<and> \<not> stops env (AtMerge k)"
    and "\<forall>k. Suc k < N \<longrightarrow> \<not> stops env (AtPeerEvent k)
                         \<and> \<not> throws (openConnection env k (id' (L ! k)))"
    and "stops env AtGetNetwork \<or> stops env AtGetAllPeerIds
          \<or> (\<exists>i<length peerIds. \<exists>pid. peerIdFromString env (peerIds ! i) = Inr pid
                \<and> stops env (AtFindPeer i)) \<longrightarrow> N = 0"
    and "(\<forall>k<N. \<not> throws (openConnection env k (id' (L ! k))))
          \<and> (M = N \<and> N = length L
             \<or> M = Suc N \<and> N < length L \<and> merge env N (L ! N) = None
                  \<and> timer (snd (discoverBootstrapPeers env s)) = None \<and> (\<exists>p. stops env p)
             \<or> (\<exists>err. M = Suc N \<and> N < length L \<and> merge env N (L ! N) = Some err
                  \<and> last (run_events env s) =
                      Log Err [ArgStr ''Could not discover bootstrap peers'', ArgErr err]))
        \<or> (\<exists>err k. M = N \<and> N = Suc k \<and> openConnection env k (id' (L ! k)) = Throws err
                  \<and> last (run_events env s) =
                      Log Err [ArgStr ''Could not discover bootstrap peers'', ArgErr err])"
proof -
  from full_run[OF armed net con ids] obtain s8 tr0 c s' tr n where
    p: "merged tr0 = []" "announced tr0 = []" "dialed tr0 = []"
       "\<forall>i<length peerIds. \<forall>err. resolve1 env i (peerIds ! i) = Inl err \<longrightarrow>
              Log Err [ArgStr ''Could not lookup  multiaddrs for bootstrap peer'', ArgStr (peerIds ! i), ArgErr err] \<in> set tr0"
       "list s8 = L" "init s8 = init s"
       "stops env AtGetNetwork \<or> stops env AtGetAllPeerIds
              \<or> (\<exists>i<length peerIds. \<exists>pid. peerIdFromString env (peerIds ! i) = Inr pid \<and> stops env (AtFindPeer i))
              \<longrightarrow> timer s8 = None"
       "(\<forall>p. \<not> stops env p) \<longrightarrow> timer s8 = timer s"
       "loop_shape env 0 (list s8) s8 c s' tr n"
       "list (snd (discoverBootstrapPeers env s)) = L"
       "timer (snd (discoverBootstrapPeers env s)) = timer s'"
       "run_background env s = concat (map (\<lambda>k. dial_log env k (id' (L ! k))) [0..<n])"
       "run_events env s =
              tr0 @ tr @ (case c of Throw err \<Rightarrow> [Log Err [ArgStr ''Could not discover bootstrap peers'', ArgErr err]]
                                   | _ \<Rightarrow> [])"
    unfolding L_def by blast
  from p(9) have
    q: "n \<le> length L" "announced tr = take n L" "dialed tr = map id' (take n L)"
       "\<forall>k<n. merge env k (L ! k) = None \<and> \<not> stops env (AtMerge k)"
       "\<forall>k. Suc k < n \<longrightarrow> \<not> stops env (AtPeerEvent k)
                         \<and> \<not> throws (openConnection env k (id' (L ! k)))"
       "0 < n \<longrightarrow> timer s8 \<noteq> None"
    by (simp_all add: loop_shape_def p(5))
  have pr: "merged (run_events env s) = merged tr" "announced (run_events env s) = announced tr"
           "dialed (run_events env s) = dialed tr"
    using p(1-3) by (cases c; simp add: p(13))+
  have N: "N = n" unfolding N_def pr using q(1,2) by simp
  have M: "M = length (merged tr)" unfolding M_def pr ..
  show "list (snd (discoverBootstrapPeers env s)) = L" by (rule p(10))
  show "merged (run_events env s) = map (merge_call (init s)) (take M L)"
    unfolding pr M using loop_shape_cases(1)[OF p(9)] by (simp add: p(5,6))
  show "announced (run_events env s) = take N L" unfolding pr N by (rule q(2))
  show "dialed (run_events env s) = map id' (take N L)" unfolding pr N by (rule q(3))
  show "N \<le> length L" unfolding N by (rule q(1))
  show "\<forall>i<length peerIds. \<forall>err. resolve1 env i (peerIds ! i) = Inl err \<longrightarrow>
           Log Err [ArgStr ''Could not lookup  multiaddrs for bootstrap peer'',
                    ArgStr (peerIds ! i), ArgErr err] \<in> set (run_events env s)"
    using p(4) by (simp add: p(13))
  show "run_background env s = concat (map (\<lambda>k. dial_log env k (id' (L ! k))) [0..<N])"
    unfolding N by (rule p(12))
  show "\<forall>k<N. merge env k (L ! k) = None \<and> \<not> stops env (AtMerge k)"
    unfolding N by (rule q(4))
  show "\<forall>k. Suc k < N \<longrightarrow> \<not> stops env (AtPeerEvent k)
                         \<and> \<not> throws (openConnection env k (id' (L ! k)))"
    unfolding N by (rule q(5))
  show "stops env AtGetNetwork \<or> stops env AtGetAllPeerIds
          \<or> (\<exists>i<length peerIds. \<exists>pid. peerIdFromString env (peerIds ! i) = Inr pid
                \<and> stops env (AtFindPeer i)) \<longrightarrow> N = 0"
    unfolding N using p(7) q(6) by blast
  have lastT: "last (run_events env s) = Log Err [ArgStr ''Could not discover bootstrap peers'', ArgErr err]"
    if "c = Throw err" for err
    using that by (simp add: p(13))
  have cause: "\<exists>p. stops env p"
    if "timer s8 = None \<or> stops env (AtMerge n) \<or> (\<exists>k. Suc k = n \<and> stops env (AtPeerEvent k))"
    using that p(8) armed by auto
  from loop_shape_cases(2)[OF p(9)] show
    "(\<forall>k<N. \<not> throws (openConnection env k (id' (L ! k))))
          \<and> (M = N \<and> N = length L
             \<or> M = Suc N \<and> N < length L \<and> merge env N (L ! N) = None
                  \<and> timer (snd (discoverBootstrapPeers env s)) = None \<and> (\<exists>p. stops env p)
             \<or> (\<exists>err. M = Suc N \<and> N < length L \<and> merge env N (L ! N) = Some err
                  \<and> last (run_events env s) =
                      Log Err [ArgStr ''Could not discover bootstrap peers'', ArgErr err]))
        \<or> (\<exists>err k. M = N \<and> N = Suc k \<and> openConnection env k (id' (L ! k)) = Throws err
                  \<and> last (run_events env s) =
                      Log Err [ArgStr ''Could not discover bootstrap peers'', ArgErr err])"
    unfolding N M p(5) p(11) using lastT cause by (simp add: p(5)) blast
qed


lemma dial_log_Rejects:
  "k < n \<Longrightarrow> openConnection env k (f k) = Rejects err \<Longrightarrow>
     Log Err [ArgStr ''could not dial bootstrap peer %p'', ArgPeerId (f k), ArgErr err]
       \<in> set (concat (map (\<lambda>k. dial_log env k (f k)) [0..<n]))"
  by (auto simp add: dial_log_def intro!: bexI[of _ k])


subsection \<open>Claims\<close>

text \<open>
  C9. The constructor checks \<open>contractAddress\<close>, \<open>contractIndex\<close>, \<open>chainId\<close> and the provider
  in this order and fails with the message of the first that is missing. A provider that is present
  but has no \<open>getNetwork\<close> function, and is not an object with a \<open>request\<close> function in a
  context with a \<open>window\<close>, fails with a message that starts with \<open>Invalid provider\<close>; one
  that has \<open>getNetwork\<close> is stored as it is. An instance that comes into existence has made no
  call to any collaborator, has no timer and an empty list.
\<close>

theorem constructor_validation:
  "(contractAddress options = None \<longrightarrow>
      constructor w options = Inl (Error ''EVMBootstrap requires a contract address''))
   \<and> (contractAddress options \<noteq> None \<and> contractIndex options = None \<longrightarrow>
      constructor w options = Inl (Error ''EVMBootstrap requires a contract index''))
   \<and> (contractAddress options \<noteq> None \<and> contractIndex options \<noteq> None \<and> chainId options = None \<longrightarrow>
      constructor w options = Inl (Error ''EVMBootstrap requires a chain id''))
   \<and> (contractAddress options \<noteq> None \<and> contractIndex options \<noteq> None \<and> chainId options \<noteq> None
        \<and> ethereum options = None \<longrightarrow>
      constructor w options = Inl (Error ''EVMBootstrap requires an ethereum provider''))
   \<and> (\<forall>p. contractAddress options \<noteq> None \<and> contractIndex options \<noteq> None \<and> chainId options \<noteq> None
        \<and> ethereum options = Some p \<and> \<not> has_getNetwork p \<and> \<not> (w \<and> has_request p) \<longrightarrow>
      (\<exists>msg. constructor w options = Inl (Error msg) \<and> take 16 msg = ''Invalid provider''))
   \<and> (\<forall>p. contractAddress options \<noteq> None \<and> contractIndex options \<noteq> None \<and> chainId options \<noteq> None
        \<and> ethereum options = Some p \<and> has_getNetwork p \<longrightarrow>
      (\<exists>s. constructor w options = Inr s \<and> ethereum (init s) = Some p))
   \<and> (\<forall>s. constructor w options = Inr s \<longrightarrow>
        trace s = [] \<and> background s = [] \<and> pending s = [] \<and> timer s = None \<and> list s = [])"
  by (auto simp: constructor_def toEthersProvider_def split: option.splits sum.splits if_splits)

theorem constructor_validation_witness:
  "constructor False (goodInit\<lparr>contractAddress := None, chainId := None\<rparr>)
     = Inl (Error ''EVMBootstrap requires a contract address'')
   \<and> constructor False (goodInit\<lparr>contractIndex := None, ethereum := None\<rparr>)
     = Inl (Error ''EVMBootstrap requires a contract index'')
   \<and> constructor False (goodInit\<lparr>chainId := None, ethereum := None\<rparr>)
     = Inl (Error ''EVMBootstrap requires a chain id'')
   \<and> constructor False (goodInit\<lparr>ethereum := None\<rparr>)
     = Inl (Error ''EVMBootstrap requires an ethereum provider'')
   \<and> (\<exists>msg. constructor True (goodInit\<lparr>ethereum := Some (Object False False)\<rparr>) = Inl (Error msg)
         \<and> take 16 msg = ''Invalid provider'')
   \<and> (\<exists>msg. constructor False (goodInit\<lparr>ethereum := Some (Object False True)\<rparr>) = Inl (Error msg)
         \<and> take 16 msg = ''Invalid provider'')
   \<and> (\<exists>s. constructor False goodInit = Inr s \<and> ethereum (init s) = Some (Object True True)
         \<and> trace s = [] \<and> timer s = None \<and> list s = [])"
proof -
  have 1: "constructor False (goodInit\<lparr>contractAddress := None, chainId := None\<rparr>)
     = Inl (Error ''EVMBootstrap requires a contract address'')"
    using constructor_validation[of "goodInit\<lparr>contractAddress := None, chainId := None\<rparr>" False]
    by simp
  have 2: "constructor False (goodInit\<lparr>contractIndex := None, ethereum := None\<rparr>)
     = Inl (Error ''EVMBootstrap requires a contract index'')"
    using constructor_validation[of "goodInit\<lparr>contractIndex := None, ethereum := None\<rparr>" False]
    by (simp add: goodInit_def)
  have 3: "constructor False (goodInit\<lparr>chainId := None, ethereum := None\<rparr>)
     = Inl (Error ''EVMBootstrap requires a chain id'')"
    using constructor_validation[of "goodInit\<lparr>chainId := None, ethereum := None\<rparr>" False]
    by (simp add: goodInit_def)
  have 4: "constructor False (goodInit\<lparr>ethereum := None\<rparr>)
     = Inl (Error ''EVMBootstrap requires an ethereum provider'')"
    using constructor_validation[of "goodInit\<lparr>ethereum := None\<rparr>" False]
    by (simp add: goodInit_def)
  have 5: "\<exists>msg. constructor True (goodInit\<lparr>ethereum := Some (Object False False)\<rparr>) = Inl (Error msg)
         \<and> take 16 msg = ''Invalid provider''"
    using constructor_validation[of "goodInit\<lparr>ethereum := Some (Object False False)\<rparr>" True]
    by (simp add: goodInit_def)
  have 6: "\<exists>msg. constructor False (goodInit\<lparr>ethereum := Some (Object False True)\<rparr>) = Inl (Error msg)
         \<and> take 16 msg = ''Invalid provider''"
    using constructor_validation[of "goodInit\<lparr>ethereum := Some (Object False True)\<rparr>" False]
    by (simp add: goodInit_def)
  have 7: "\<exists>s. constructor False goodInit = Inr s \<and> ethereum (init s) = Some (Object True True)
         \<and> trace s = [] \<and> timer s = None \<and> list s = []"
    using constructor_validation[of goodInit False]
    by (auto simp add: goodInit_def)
  from 1 2 3 4 5 6 7 show ?thesis by blast
qed

text \<open>
  C1. Whatever the configuration and the provider: when the pipeline is entered with the timer
  set and the provider reports a network id other than the configured \<open>chainId\<close>, the promise
  rejects with the error \<open>Wrong network: expected chainId ..., got ...\<close>; the run consists of
  two trace lines, the network query and one error line that spells out the observed and the
  expected id; no contract is constructed, no contract query is issued and the list is untouched.
\<close>

theorem wrong_network_raises:
  assumes "timer s \<noteq> None"
    and "getNetwork env = Inr observed"
    and "Some observed \<noteq> chainId (init s)"
  shows "fst (discoverBootstrapPeers env s) =
           Some (Error (''Wrong network: expected chainId '' @ template (chainId (init s)) @
                        '', got '' @ toString observed))
       \<and> run_events env s =
           [Log Trace [ArgStr ''_discoverBootstrapPeers called''],
            Log Trace [ArgStr ''Getting network from ethereum provider''],
            GetNetwork,
            Log Err [ArgStr (''Ethereum provider is connected to chainId '' @ toString observed @
                             '', but expected '' @ template (chainId (init s)) @
                             ''. Please switch networks in your wallet.'')]]
       \<and> (\<forall>a. NewContract a \<notin> set (run_events env s))
       \<and> (\<forall>i. GetAllPeerIds i \<notin> set (run_events env s))
       \<and> list (snd (discoverBootstrapPeers env s)) = list s"
proof -
  have r: "discoverBootstrapPeers env s =
      (Some (Error (wrong_network_message (chainId (init s)) observed)),
       log Err [ArgStr (wrong_chain_log observed (chainId (init s)))]
        (await env AtGetNetwork (emit GetNetwork
          (log Trace [ArgStr ''Getting network from ethereum provider'']
            (log Trace [ArgStr ''_discoverBootstrapPeers called''] s)))))"
    using assms by (auto simp add: discoverBootstrapPeers_def Let_def)
  have e: "run_events env s =
           [Log Trace [ArgStr ''_discoverBootstrapPeers called''],
            Log Trace [ArgStr ''Getting network from ethereum provider''],
            GetNetwork,
            Log Err [ArgStr (wrong_chain_log observed (chainId (init s)))]]"
    by (rule run_events_eq) (simp add: r)
  show ?thesis
    unfolding e by (simp add: r wrong_network_message_def wrong_chain_log_def)
qed

theorem wrong_network_raises_witness:
  "fst (discoverBootstrapPeers (stubs\<lparr>getNetwork := Inr 99\<rparr>) armed) =
      Some (Error ''Wrong network: expected chainId 1, got 99'')
   \<and> Log Err [ArgStr ''Ethereum provider is connected to chainId 99, but expected 1. Please switch networks in your wallet.'']
        \<in> set (run_events (stubs\<lparr>getNetwork := Inr 99\<rparr>) armed)"
proof -
  have h: "timer armed \<noteq> None" "getNetwork (stubs\<lparr>getNetwork := Inr 99\<rparr>) = Inr 99"
          "Some 99 \<noteq> chainId (init armed)"
    by (simp_all add: armed_def fresh_def goodInit_def)
  have "toString 99 = ''99''" "toString 1 = ''1''"
    by code_simp+
  then have t: "toString 99 = ''99''" "template (chainId (init armed)) = ''1''"
    by (simp_all add: armed_def fresh_def goodInit_def)
  from wrong_network_raises[OF h] show ?thesis by (simp add: t)
qed

text \<open>
  C2, as the code has it. The pipeline rejects with \<open>e\<close> exactly when it was entered with the
  timer set and either the network query itself failed with \<open>e\<close>, or the network id differs
  from the configured one and \<open>e\<close> is the wrong-network error: both happen before the outer
  \<open>try\<close>, so the failure of the network query escapes as well. Once the chain check has passed
  the promise resolves, and each failure has left its line in the log. A contract constructor
  that throws, a contract query that fails, a merge that was issued and failed, and a call of
  \<open>openConnection\<close> that was made and threw, each end the run with the line
  \<open>Could not discover bootstrap peers\<close> and the cause. An identifier that does not parse, or
  that peer routing does not find, is logged with its string and the cause. A connection request
  that was made and whose promise rejects is logged by its \<open>.catch\<close>, with the peer and the
  cause, among the lines of the detached continuations.
\<close>

theorem escaping_errors:
  "(fst (discoverBootstrapPeers env s) = Some e \<longleftrightarrow>
      timer s \<noteq> None \<and>
      (getNetwork env = Inl e \<or>
       (\<exists>observed. getNetwork env = Inr observed \<and> Some observed \<noteq> chainId (init s)
          \<and> e = Error (wrong_network_message (chainId (init s)) observed))))
   \<and> (timer s \<noteq> None \<and> getNetwork env = Inr network \<and> Some network = chainId (init s) \<longrightarrow>
        fst (discoverBootstrapPeers env s) = None
      \<and> (\<forall>err. ContractClass env = Some err \<longrightarrow>
            last (run_events env s) =
              Log Err [ArgStr ''Could not discover bootstrap peers'', ArgErr err])
      \<and> (\<forall>err. ContractClass env = None \<and> getAllPeerIds env = Inl err \<longrightarrow>
            last (run_events env s) =
              Log Err [ArgStr ''Could not discover bootstrap peers'', ArgErr err])
      \<and> (\<forall>peerIds. ContractClass env = None \<and> getAllPeerIds env = Inr peerIds \<longrightarrow>
            (\<forall>i err. i < length peerIds \<and> peerIdFromString env (peerIds ! i) = Inl err \<longrightarrow>
               Log Err [ArgStr ''Could not lookup  multiaddrs for bootstrap peer'',
                        ArgStr (peerIds ! i), ArgErr err] \<in> set (run_events env s))
          \<and> (\<forall>i pid err. i < length peerIds \<and> peerIdFromString env (peerIds ! i) = Inr pid
                 \<and> findPeer env i pid = Inl err \<longrightarrow>
               Log Err [ArgStr ''Could not lookup  multiaddrs for bootstrap peer'',
                        ArgStr (peerIds ! i), ArgErr err] \<in> set (run_events env s))
          \<and> (\<forall>k err. k < length (merged (run_events env s))
                 \<and> merge env k ((list s @ resolved env 0 peerIds) ! k) = Some err \<longrightarrow>
               last (run_events env s) =
                 Log Err [ArgStr ''Could not discover bootstrap peers'', ArgErr err])
          \<and> (\<forall>k err. k < length (dialed (run_events env s))
                 \<and> openConnection env k (id' ((list s @ resolved env 0 peerIds) ! k)) = Rejects err \<longrightarrow>
               Log Err [ArgStr ''could not dial bootstrap peer %p'',
                        ArgPeerId (id' ((list s @ resolved env 0 peerIds) ! k)), ArgErr err]
                 \<in> set (run_background env s))
          \<and> (\<forall>k err. k < length (dialed (run_events env s))
                 \<and> openConnection env k (id' ((list s @ resolved env 0 peerIds) ! k)) = Throws err \<longrightarrow>
               last (run_events env s) =
                 Log Err [ArgStr ''Could not discover bootstrap peers'', ArgErr err])))"
proof -
  have esc: "fst (discoverBootstrapPeers env s) = Some e \<longleftrightarrow>
      timer s \<noteq> None \<and>
      (getNetwork env = Inl e \<or>
       (\<exists>observed. getNetwork env = Inr observed \<and> Some observed \<noteq> chainId (init s)
          \<and> e = Error (wrong_network_message (chainId (init s)) observed)))"
    by (auto simp add: discoverBootstrapPeers_def Let_def split: sum.splits prod.splits completion.splits)
  have rest: "fst (discoverBootstrapPeers env s) = None
      \<and> (\<forall>err. ContractClass env = Some err \<longrightarrow>
            last (run_events env s) =
              Log Err [ArgStr ''Could not discover bootstrap peers'', ArgErr err])
      \<and> (\<forall>err. ContractClass env = None \<and> getAllPeerIds env = Inl err \<longrightarrow>
            last (run_events env s) =
              Log Err [ArgStr ''Could not discover bootstrap peers'', ArgErr err])
      \<and> (\<forall>peerIds. ContractClass env = None \<and> getAllPeerIds env = Inr peerIds \<longrightarrow>
            (\<forall>i err. i < length peerIds \<and> peerIdFromString env (peerIds ! i) = Inl err \<longrightarrow>
               Log Err [ArgStr ''Could not lookup  multiaddrs for bootstrap peer'',
                        ArgStr (peerIds ! i), ArgErr err] \<in> set (run_events env s))
          \<and> (\<forall>i pid err. i < length peerIds \<and> peerIdFromString env (peerIds ! i) = Inr pid
                 \<and> findPeer env i pid = Inl err \<longrightarrow>
               Log Err [ArgStr ''Could not lookup  multiaddrs for bootstrap peer'',
                        ArgStr (peerIds ! i), ArgErr err] \<in> set (run_events env s))
          \<and> (\<forall>k err. k < length (merged (run_events env s))
                 \<and> merge env k ((list s @ resolved env 0 peerIds) ! k) = Some err \<longrightarrow>
               last (run_events env s) =
                 Log Err [ArgStr ''Could not discover bootstrap peers'', ArgErr err])
          \<and> (\<forall>k err. k < length (dialed (run_events env s))
                 \<and> openConnection env k (id' ((list s @ resolved env 0 peerIds) ! k)) = Rejects err \<longrightarrow>
               Log Err [ArgStr ''could not dial bootstrap peer %p'',
                        ArgPeerId (id' ((list s @ resolved env 0 peerIds) ! k)), ArgErr err]
                 \<in> set (run_background env s))
          \<and> (\<forall>k err. k < length (dialed (run_events env s))
                 \<and> openConnection env k (id' ((list s @ resolved env 0 peerIds) ! k)) = Throws err \<longrightarrow>
               last (run_events env s) =
                 Log Err [ArgStr ''Could not discover bootstrap peers'', ArgErr err]))"
    if h: "timer s \<noteq> None" "getNetwork env = Inr network" "Some network = chainId (init s)"
  proof -
    have 1: "fst (discoverBootstrapPeers env s) = None"
      using h
      by (auto simp add: discoverBootstrapPeers_def Let_def split: sum.splits prod.splits completion.splits)
    have 2: "\<forall>err. ContractClass env = Some err \<longrightarrow>
            last (run_events env s) =
              Log Err [ArgStr ''Could not discover bootstrap peers'', ArgErr err]"
    proof (intro allI impI)
      fix err assume c: "ContractClass env = Some err"
      have "run_events env s =
              [Log Trace [ArgStr ''_discoverBootstrapPeers called''],
               Log Trace [ArgStr ''Getting network from ethereum provider''],
               GetNetwork,
               Log Trace [ArgStr ''Creating contract instance''],
               NewContract (contractAddress (init s)),
               Log Err [ArgStr ''Could not discover bootstrap peers'', ArgErr err]]"
        using h c
        by (intro run_events_eq) (auto simp add: discoverBootstrapPeers_def try_block_def Let_def)
      then show "last (run_events env s) =
              Log Err [ArgStr ''Could not discover bootstrap peers'', ArgErr err]" by simp
    qed
    have 3: "\<forall>err. ContractClass env = None \<and> getAllPeerIds env = Inl err \<longrightarrow>
            last (run_events env s) =
              Log Err [ArgStr ''Could not discover bootstrap peers'', ArgErr err]"
    proof (intro allI impI)
      fix err assume c: "ContractClass env = None \<and> getAllPeerIds env = Inl err"
      have "run_events env s =
              [Log Trace [ArgStr ''_discoverBootstrapPeers called''],
               Log Trace [ArgStr ''Getting network from ethereum provider''],
               GetNetwork,
               Log Trace [ArgStr ''Creating contract instance''],
               NewContract (contractAddress (init s)),
               Log Trace [ArgStr ''Calling getAllPeerIds''],
               GetAllPeerIds (contractIndex (init s)),
               Log Err [ArgStr ''Could not discover bootstrap peers'', ArgErr err]]"
        using h c
        by (intro run_events_eq) (auto simp add: discoverBootstrapPeers_def try_block_def Let_def)
      then show "last (run_events env s) =
              Log Err [ArgStr ''Could not discover bootstrap peers'', ArgErr err]" by simp
    qed
    have 4: "(\<forall>i err. i < length peerIds \<and> peerIdFromString env (peerIds ! i) = Inl err \<longrightarrow>
               Log Err [ArgStr ''Could not lookup  multiaddrs for bootstrap peer'',
                        ArgStr (peerIds ! i), ArgErr err] \<in> set (run_events env s))
          \<and> (\<forall>i pid err. i < length peerIds \<and> peerIdFromString env (peerIds ! i) = Inr pid
                 \<and> findPeer env i pid = Inl err \<longrightarrow>
               Log Err [ArgStr ''Could not lookup  multiaddrs for bootstrap peer'',
                        ArgStr (peerIds ! i), ArgErr err] \<in> set (run_events env s))
          \<and> (\<forall>k err. k < length (merged (run_events env s))
                 \<and> merge env k ((list s @ resolved env 0 peerIds) ! k) = Some err \<longrightarrow>
               last (run_events env s) =
                 Log Err [ArgStr ''Could not discover bootstrap peers'', ArgErr err])
          \<and> (\<forall>k err. k < length (dialed (run_events env s))
                 \<and> openConnection env k (id' ((list s @ resolved env 0 peerIds) ! k)) = Rejects err \<longrightarrow>
               Log Err [ArgStr ''could not dial bootstrap peer %p'',
                        ArgPeerId (id' ((list s @ resolved env 0 peerIds) ! k)), ArgErr err]
                 \<in> set (run_background env s))
          \<and> (\<forall>k err. k < length (dialed (run_events env s))
                 \<and> openConnection env k (id' ((list s @ resolved env 0 peerIds) ! k)) = Throws err \<longrightarrow>
               last (run_events env s) =
                 Log Err [ArgStr ''Could not discover bootstrap peers'', ArgErr err])"
      if q: "ContractClass env = None" "getAllPeerIds env = Inr peerIds" for peerIds
    proof -
      let ?L = "list s @ resolved env 0 peerIds"
      let ?M = "length (merged (run_events env s))"
      let ?N = "length (announced (run_events env s))"
      note r = run_shape[OF h q]
      have dN: "length (dialed (run_events env s)) = ?N"
        unfolding r(4) using r(5) by simp
      have a: "\<forall>i err. i < length peerIds \<and> peerIdFromString env (peerIds ! i) = Inl err \<longrightarrow>
               Log Err [ArgStr ''Could not lookup  multiaddrs for bootstrap peer'',
                        ArgStr (peerIds ! i), ArgErr err] \<in> set (run_events env s)"
        using r(6) by (simp add: resolve1_Inl_cases)
      have b: "\<forall>i pid err. i < length peerIds \<and> peerIdFromString env (peerIds ! i) = Inr pid
                 \<and> findPeer env i pid = Inl err \<longrightarrow>
               Log Err [ArgStr ''Could not lookup  multiaddrs for bootstrap peer'',
                        ArgStr (peerIds ! i), ArgErr err] \<in> set (run_events env s)"
        using r(6) by (simp add: resolve1_Inl_cases)
      have c: "\<forall>k err. k < ?M \<and> merge env k (?L ! k) = Some err \<longrightarrow>
               last (run_events env s) =
                 Log Err [ArgStr ''Could not discover bootstrap peers'', ArgErr err]"
      proof (intro allI impI)
        fix k err assume k: "k < ?M \<and> merge env k (?L ! k) = Some err"
        have nk: "\<not> k < ?N" using r(8) k by auto
        from r(11) k nk show "last (run_events env s) =
                 Log Err [ArgStr ''Could not discover bootstrap peers'', ArgErr err]"
          by (elim disjE conjE exE) (simp_all add: less_Suc_eq)
      qed
      have d: "\<forall>k err. k < ?N \<and> openConnection env k (id' (?L ! k)) = Rejects err \<longrightarrow>
               Log Err [ArgStr ''could not dial bootstrap peer %p'', ArgPeerId (id' (?L ! k)), ArgErr err]
                 \<in> set (run_background env s)"
        unfolding r(7) using dial_log_Rejects[of _ ?N env "\<lambda>k. id' (?L ! k)"] by blast
      have e: "\<forall>k err. k < ?N \<and> openConnection env k (id' (?L ! k)) = Throws err \<longrightarrow>
               last (run_events env s) =
                 Log Err [ArgStr ''Could not discover bootstrap peers'', ArgErr err]"
      proof (intro allI impI)
        fix k err assume k: "k < ?N \<and> openConnection env k (id' (?L ! k)) = Throws err"
        then have th: "throws (openConnection env k (id' (?L ! k)))" by simp
        from r(11) show "last (run_events env s) =
                 Log Err [ArgStr ''Could not discover bootstrap peers'', ArgErr err]"
        proof
          assume "(\<forall>k<?N. \<not> throws (openConnection env k (id' (?L ! k))))
          \<and> (?M = ?N \<and> ?N = length ?L
             \<or> ?M = Suc ?N \<and> ?N < length ?L \<and> merge env ?N (?L ! ?N) = None
                  \<and> timer (snd (discoverBootstrapPeers env s)) = None \<and> (\<exists>p. stops env p)
             \<or> (\<exists>err. ?M = Suc ?N \<and> ?N < length ?L \<and> merge env ?N (?L ! ?N) = Some err
                  \<and> last (run_events env s) =
                      Log Err [ArgStr ''Could not discover bootstrap peers'', ArgErr err]))"
          with k th show ?thesis by blast
        next
          assume "\<exists>err k. ?M = ?N \<and> ?N = Suc k \<and> openConnection env k (id' (?L ! k)) = Throws err
                  \<and> last (run_events env s) =
                      Log Err [ArgStr ''Could not discover bootstrap peers'', ArgErr err]"
          then obtain err' k' where g: "?N = Suc k'" "openConnection env k' (id' (?L ! k')) = Throws err'"
              "last (run_events env s) = Log Err [ArgStr ''Could not discover bootstrap peers'', ArgErr err']"
            by blast
          have "\<not> Suc k < ?N"
          proof
            assume "Suc k < ?N"
            with r(9) th show False by blast
          qed
          with k g(1) have "k = k'" by simp
          with k g show ?thesis by simp
        qed
      qed
      from a b c d e show ?thesis unfolding dN by blast
    qed
    from 1 2 3 4 show ?thesis by blast
  qed
  from esc rest show ?thesis by blast
qed

theorem escaping_errors_counterexample:
  "fst (discoverBootstrapPeers (stubs\<lparr>getNetwork := Inl (Error ''could not detect network'')\<rparr>) armed)
     = Some (Error ''could not detect network'')"
  by (simp add: discoverBootstrapPeers_def Let_def armed_def fresh_def)

theorem escaping_errors_witness:
  "fst (discoverBootstrapPeers (stubs\<lparr>getNetwork := Inl (Error ''could not detect network'')\<rparr>) armed)
     = Some (Error ''could not detect network'')
   \<and> fst (discoverBootstrapPeers (stubs\<lparr>ContractClass := Some (Error ''boom'')\<rparr>) armed) = None
   \<and> last (run_events (stubs\<lparr>ContractClass := Some (Error ''boom'')\<rparr>) armed)
       = Log Err [ArgStr ''Could not discover bootstrap peers'', ArgErr (Error ''boom'')]
   \<and> fst (discoverBootstrapPeers
        (stubs\<lparr>openConnection := (\<lambda>j p. if j = 1 then Rejects (Error ''dial failed'') else Resolves)\<rparr>) armed)
       = None
   \<and> Log Err [ArgStr ''could not dial bootstrap peer %p'', ArgPeerId ''QmXc'', ArgErr (Error ''dial failed'')]
       \<in> set (run_background
            (stubs\<lparr>openConnection := (\<lambda>j p. if j = 1 then Rejects (Error ''dial failed'') else Resolves)\<rparr>) armed)
   \<and> last (run_events
        (stubs\<lparr>openConnection := (\<lambda>j p. if j = 0 then Throws (Error ''no transport'') else Resolves)\<rparr>) armed)
       = Log Err [ArgStr ''Could not discover bootstrap peers'', ArgErr (Error ''no transport'')]"
proof -
  let ?envN = "stubs\<lparr>getNetwork := Inl (Error ''could not detect network'')\<rparr>"
  let ?envC = "stubs\<lparr>ContractClass := Some (Error ''boom'')\<rparr>"
  let ?envR = "stubs\<lparr>openConnection := (\<lambda>j p. if j = 1 then Rejects (Error ''dial failed'') else Resolves)\<rparr>"
  let ?envT = "stubs\<lparr>openConnection := (\<lambda>j p. if j = 0 then Throws (Error ''no transport'') else Resolves)\<rparr>"
  have a: "timer armed \<noteq> None" "Some 1 = chainId (init armed)" "list armed = []"
    by (simp_all add: fixture_defs)
  have 1: "fst (discoverBootstrapPeers ?envN armed) = Some (Error ''could not detect network'')"
    using escaping_errors[of ?envN armed "Error ''could not detect network''" 1] a
    by (simp add: stubs_def)
  have 2: "fst (discoverBootstrapPeers ?envC armed) = None
     \<and> last (run_events ?envC armed)
         = Log Err [ArgStr ''Could not discover bootstrap peers'', ArgErr (Error ''boom'')]"
    using escaping_errors[of ?envC armed "Error ''boom''" 1] a
    by (simp add: stubs_def)
  have r: "getNetwork ?envR = Inr 1" "ContractClass ?envR = None" "getAllPeerIds ?envR = Inr mockPeerIds"
          "resolved ?envR 0 mockPeerIds = [info ''QmXb'', info ''QmXc'', info ''QmXd'']"
          "length (dialed (run_events ?envR armed)) = 3"
          "openConnection ?envR 1 ''QmXc'' = Rejects (Error ''dial failed'')"
    by (simp_all add: run_defs fixture_defs resolve1_def)
  have 3: "fst (discoverBootstrapPeers ?envR armed) = None
     \<and> Log Err [ArgStr ''could not dial bootstrap peer %p'', ArgPeerId ''QmXc'', ArgErr (Error ''dial failed'')]
         \<in> set (run_background ?envR armed)"
  proof -
    from escaping_errors[of ?envR armed "Error ''x''" 1] a r(1,2,3) have
      f: "fst (discoverBootstrapPeers ?envR armed) = None"
      and d: "\<forall>k err. k < length (dialed (run_events ?envR armed))
                 \<and> openConnection ?envR k (id' ((list armed @ resolved ?envR 0 mockPeerIds) ! k)) = Rejects err \<longrightarrow>
               Log Err [ArgStr ''could not dial bootstrap peer %p'',
                        ArgPeerId (id' ((list armed @ resolved ?envR 0 mockPeerIds) ! k)), ArgErr err]
                 \<in> set (run_background ?envR armed)"
      by blast+
    have "(1::nat) < length (dialed (run_events ?envR armed))
        \<and> openConnection ?envR 1 (id' ((list armed @ resolved ?envR 0 mockPeerIds) ! 1))
            = Rejects (Error ''dial failed'')"
      unfolding r(4,5) a(3) by (simp add: info_def stubs_def)
    with d have "Log Err [ArgStr ''could not dial bootstrap peer %p'',
                        ArgPeerId (id' ((list armed @ resolved ?envR 0 mockPeerIds) ! 1)), ArgErr (Error ''dial failed'')]
                 \<in> set (run_background ?envR armed)"
      by blast
    then have "Log Err [ArgStr ''could not dial bootstrap peer %p'', ArgPeerId ''QmXc'', ArgErr (Error ''dial failed'')]
                 \<in> set (run_background ?envR armed)"
      unfolding r(4) a(3) by (simp add: info_def)
    with f show ?thesis by blast
  qed
  have t: "getNetwork ?envT = Inr 1" "ContractClass ?envT = None" "getAllPeerIds ?envT = Inr mockPeerIds"
          "resolved ?envT 0 mockPeerIds = [info ''QmXb'', info ''QmXc'', info ''QmXd'']"
          "length (dialed (run_events ?envT armed)) = 1"
    by (simp_all add: run_defs fixture_defs resolve1_def)
  have 4: "last (run_events ?envT armed)
       = Log Err [ArgStr ''Could not discover bootstrap peers'', ArgErr (Error ''no transport'')]"
  proof -
    from escaping_errors[of ?envT armed "Error ''x''" 1] a t(1,2,3) have
      d: "\<forall>k err. k < length (dialed (run_events ?envT armed))
                 \<and> openConnection ?envT k (id' ((list armed @ resolved ?envT 0 mockPeerIds) ! k)) = Throws err \<longrightarrow>
               last (run_events ?envT armed) =
                 Log Err [ArgStr ''Could not discover bootstrap peers'', ArgErr err]"
      by blast
    have "(0::nat) < length (dialed (run_events ?envT armed))
        \<and> openConnection ?envT 0 (id' ((list armed @ resolved ?envT 0 mockPeerIds) ! 0))
            = Throws (Error ''no transport'')"
      unfolding t(4,5) a(3) by (simp add: stubs_def)
    with d show ?thesis by blast
  qed
  from 1 2 3 4 show ?thesis by blast
qed

text \<open>
  C3, as the code has it. In a run that gets the identifiers \<open>peerIds\<close> from the contract, the
  list grows by exactly the results of the identifiers that resolve, in order, so an identifier
  that fails is skipped and the ones after it are still processed; each failing identifier is
  logged with its string and the cause; and every merge, every \<open>peer\<close> event and every
  connection request of the run is for an entry of that list, that is, for an entry of an earlier
  run or for an identifier that this run resolved. A failed lookup contributes to none of them;
  the peer it names is still tagged, announced and dialed when an earlier run has left an entry
  for it.
\<close>

theorem per_identifier_isolation:
  assumes "timer s \<noteq> None"
    and "getNetwork env = Inr network" and "Some network = chainId (init s)"
    and "ContractClass env = None"
    and "getAllPeerIds env = Inr peerIds"
  shows "list (snd (discoverBootstrapPeers env s)) = list s @ resolved env 0 peerIds
       \<and> (\<forall>i<length peerIds. \<forall>err. resolve1 env i (peerIds ! i) = Inl err \<longrightarrow>
             Log Err [ArgStr ''Could not lookup  multiaddrs for bootstrap peer'',
                      ArgStr (peerIds ! i), ArgErr err] \<in> set (run_events env s))
       \<and> (\<exists>m n. merged (run_events env s) =
                   map (merge_call (init s)) (take m (list s @ resolved env 0 peerIds))
               \<and> announced (run_events env s) = take n (list s @ resolved env 0 peerIds)
               \<and> dialed (run_events env s) = map id' (take n (list s @ resolved env 0 peerIds)))"
proof -
  note r = run_shape[OF assms]
  from r(1,2,3,4,6) show ?thesis by blast
qed

theorem per_identifier_isolation_counterexample:
  "resolve1 (stubs\<lparr>getAllPeerIds := Inr [''QmXb''], findPeer := (\<lambda>k p. Inl (Error ''not found''))\<rparr>) 0 ''QmXb''
     = Inl (Error ''not found'')
   \<and> merged (run_events (stubs\<lparr>getAllPeerIds := Inr [''QmXb''], findPeer := (\<lambda>k p. Inl (Error ''not found''))\<rparr>)
        (snd (discoverBootstrapPeers (stubs\<lparr>getAllPeerIds := Inr [''QmXb'']\<rparr>) armed)))
     = [Merge ''QmXb'' ''mytag'' 42 (Some 60000) [''/ip4/127.0.0.1/tcp/4001/ipfs/QmXb'']]
   \<and> announced (run_events (stubs\<lparr>getAllPeerIds := Inr [''QmXb''], findPeer := (\<lambda>k p. Inl (Error ''not found''))\<rparr>)
        (snd (discoverBootstrapPeers (stubs\<lparr>getAllPeerIds := Inr [''QmXb'']\<rparr>) armed)))
     = [info ''QmXb'']
   \<and> dialed (run_events (stubs\<lparr>getAllPeerIds := Inr [''QmXb''], findPeer := (\<lambda>k p. Inl (Error ''not found''))\<rparr>)
        (snd (discoverBootstrapPeers (stubs\<lparr>getAllPeerIds := Inr [''QmXb'']\<rparr>) armed)))
     = [''QmXb'']"
  by (simp add: resolve1_def run_defs fixture_defs)

theorem per_identifier_isolation_witness:
  "list (snd (discoverBootstrapPeers (stubs\<lparr>findPeer := (\<lambda>k p. if k = 1 then Inl (Error ''not found'') else Inr (info p))\<rparr>) armed))
     = [info ''QmXb'', info ''QmXd'']
   \<and> Log Err [ArgStr ''Could not lookup  multiaddrs for bootstrap peer'', ArgStr ''QmXc'', ArgErr (Error ''not found'')]
       \<in> set (run_events (stubs\<lparr>findPeer := (\<lambda>k p. if k = 1 then Inl (Error ''not found'') else Inr (info p))\<rparr>) armed)"
proof -
  let ?env = "stubs\<lparr>findPeer := (\<lambda>k p. if k = 1 then Inl (Error ''not found'') else Inr (info p))\<rparr>"
  have h: "timer armed \<noteq> None" "getNetwork ?env = Inr 1" "Some 1 = chainId (init armed)"
          "ContractClass ?env = None" "getAllPeerIds ?env = Inr mockPeerIds"
    by (simp_all add: armed_def fresh_def goodInit_def stubs_def)
  have r: "resolved ?env 0 mockPeerIds = [info ''QmXb'', info ''QmXd'']"
          "resolve1 ?env 1 (mockPeerIds ! 1) = Inl (Error ''not found'')"
          "list armed = []" "mockPeerIds ! 1 = ''QmXc''" "1 < length mockPeerIds"
    by (simp_all add: mockPeerIds_def resolve1_def stubs_def armed_def fresh_def)
  from per_identifier_isolation[OF h] r show ?thesis by auto
qed

text \<open>
  C4, as the code has it. In a run whose contract query succeeds, in which no merge fails and
  no call of \<open>openConnection\<close> throws (the promise it returns may reject), and during which
  \<open>stop()\<close> is not called, the second loop handles every entry of the list, the entries of
  earlier runs included: one merge with the configured tag and the entry's addresses, one
  \<open>peer\<close> event and one connection request per entry, in list order. In particular, on an
  empty list and three identifiers that resolve, there are exactly three of each. With three
  resolved peers and a first merge that fails there is one merge and no event or request.
\<close>

theorem tag_announce_connect_all:
  assumes "timer s \<noteq> None"
    and "getNetwork env = Inr network" and "Some network = chainId (init s)"
    and "ContractClass env = None"
    and "getAllPeerIds env = Inr peerIds"
    and "\<forall>j p. merge env j p = None"
    and "\<forall>j p err. openConnection env j p \<noteq> Throws err"
    and "\<forall>p. \<not> stops env p"
  shows "merged (run_events env s) = map (merge_call (init s)) (list s @ resolved env 0 peerIds)
       \<and> announced (run_events env s) = list s @ resolved env 0 peerIds
       \<and> dialed (run_events env s) = map id' (list s @ resolved env 0 peerIds)
       \<and> (\<forall>a b c pa pb pc.
            list s = [] \<and> peerIds = [a, b, c] \<and> resolve1 env 0 a = Inr pa
            \<and> resolve1 env 1 b = Inr pb \<and> resolve1 env 2 c = Inr pc \<longrightarrow>
              merged (run_events env s) =
                [merge_call (init s) pa, merge_call (init s) pb, merge_call (init s) pc]
            \<and> announced (run_events env s) = [pa, pb, pc]
            \<and> dialed (run_events env s) = [id' pa, id' pb, id' pc])"
proof -
  let ?L = "list s @ resolved env 0 peerIds"
  let ?M = "length (merged (run_events env s))"
  let ?N = "length (announced (run_events env s))"
  note r = run_shape[OF assms(1-5)]
  from r(11) assms(6,7,8) have "?M = ?N \<and> ?N = length ?L"
    by (elim disjE conjE exE) simp_all
  with r(2,3,4) have g:
       "merged (run_events env s) = map (merge_call (init s)) ?L"
       "announced (run_events env s) = ?L"
       "dialed (run_events env s) = map id' ?L"
    by simp_all
  show ?thesis unfolding g by (auto simp add: numeral_2_eq_2)
qed

theorem tag_announce_connect_all_counterexample:
  "length (list (snd (discoverBootstrapPeers (stubs\<lparr>merge := (\<lambda>j p. Some (Error ''store closed''))\<rparr>) armed))) = 3
   \<and> length (merged (run_events (stubs\<lparr>merge := (\<lambda>j p. Some (Error ''store closed''))\<rparr>) armed)) = 1
   \<and> announced (run_events (stubs\<lparr>merge := (\<lambda>j p. Some (Error ''store closed''))\<rparr>) armed) = []
   \<and> dialed (run_events (stubs\<lparr>merge := (\<lambda>j p. Some (Error ''store closed''))\<rparr>) armed) = []"
  by (simp add: run_events_def discoverBootstrapPeers_def try_block_def Let_def armed_def fresh_def stubs_def
        goodInit_def mockPeerIds_def resolve_one_def resolve1_def stop_def merge_call_def)

theorem tag_announce_connect_all_witness:
  "merged (run_events stubs armed) =
     [Merge ''QmXb'' ''mytag'' 42 (Some 60000) [''/ip4/127.0.0.1/tcp/4001/ipfs/QmXb''],
      Merge ''QmXc'' ''mytag'' 42 (Some 60000) [''/ip4/127.0.0.1/tcp/4001/ipfs/QmXc''],
      Merge ''QmXd'' ''mytag'' 42 (Some 60000) [''/ip4/127.0.0.1/tcp/4001/ipfs/QmXd'']]
   \<and> announced (run_events stubs armed) = [info ''QmXb'', info ''QmXc'', info ''QmXd'']
   \<and> dialed (run_events stubs armed) = [''QmXb'', ''QmXc'', ''QmXd'']"
proof -
  have h: "timer armed \<noteq> None" "getNetwork stubs = Inr 1" "Some 1 = chainId (init armed)"
          "ContractClass stubs = None" "getAllPeerIds stubs = Inr mockPeerIds"
          "\<forall>j p. merge stubs j p = None" "\<forall>j p err. openConnection stubs j p \<noteq> Throws err"
          "\<forall>p. \<not> stops stubs p"
    by (simp_all add: armed_def fresh_def goodInit_def stubs_def)
  have r: "list armed = []" "mockPeerIds = [''QmXb'', ''QmXc'', ''QmXd'']"
     "resolve1 stubs 0 ''QmXb'' = Inr (info ''QmXb'')"
     "resolve1 stubs 1 ''QmXc'' = Inr (info ''QmXc'')"
     "resolve1 stubs 2 ''QmXd'' = Inr (info ''QmXd'')"
    by (simp_all add: mockPeerIds_def resolve1_def stubs_def armed_def fresh_def)
  have m: "merge_call (init armed) (info x) = Merge x ''mytag'' 42 (Some 60000) [''/ip4/127.0.0.1/tcp/4001/ipfs/'' @ x]" for x
    by (simp add: merge_call_def armed_def fresh_def goodInit_def info_def)
  from tag_announce_connect_all[OF h] r have
     "merged (run_events stubs armed) =
                [merge_call (init armed) (info ''QmXb''), merge_call (init armed) (info ''QmXc''), merge_call (init armed) (info ''QmXd'')]
            \<and> announced (run_events stubs armed) = [info ''QmXb'', info ''QmXc'', info ''QmXd'']
            \<and> dialed (run_events stubs armed) = [id' (info ''QmXb''), id' (info ''QmXc''), id' (info ''QmXd'')]"
    by blast
  then show ?thesis by (simp add: m) (simp add: info_def)
qed

text \<open>
  C5. After \<open>start()\<close>, \<open>isStarted()\<close> is true. \<open>start()\<close> on a started instance changes
  nothing at all, so a second \<open>start()\<close> arms no second timer and leaves the due time of the
  first alone. From an instance that is not started, with no timer armed: after two calls of
  \<open>start()\<close> one timer is armed; when the clock advances by the delay the pipeline is executed
  once, and no further advance executes it again; and a \<open>start()\<close> repeated part of the way
  through the delay does not postpone the run, which still happens when the original delay is over.
\<close>

theorem start_idempotent:
  "isStarted (start s)
   \<and> (isStarted s \<longrightarrow> start s = s)
   \<and> start (start s) = start s
   \<and> (\<not> isStarted s \<and> pending s = [] \<longrightarrow>
        pending (start (start s)) = [(Suc (next_handle s), now s + timeout s)]
      \<and> executions (tick envs (timeout s) (start (start s))) = Suc (executions s)
      \<and> (\<forall>d. executions (tick envs d (tick envs (timeout s) (start (start s)))) = Suc (executions s))
      \<and> (\<forall>d. d < timeout s \<longrightarrow>
             executions (tick envs d (start s)) = executions s
           \<and> executions (tick envs (timeout s - d) (start (tick envs d (start s)))) = Suc (executions s)))"
proof -
  have twice: "start (start s) = start s"
    using isStarted_start[of s] by (rule start_armed)
  have run: "pending (start (start s)) = [(Suc (next_handle s), now s + timeout s)]
      \<and> executions (tick envs (timeout s) (start (start s))) = Suc (executions s)
      \<and> (\<forall>d. executions (tick envs d (tick envs (timeout s) (start (start s)))) = Suc (executions s))
      \<and> (\<forall>d. d < timeout s \<longrightarrow>
             executions (tick envs d (start s)) = executions s
           \<and> executions (tick envs (timeout s - d) (start (tick envs d (start s)))) = Suc (executions s))"
    if idle: "\<not> isStarted s" "pending s = []"
  proof -
    let ?h = "Suc (next_handle s)"
    from start_unarmed[OF idle(1)] idle(2) have
      st: "timer (start s) = Some ?h" "pending (start s) = [(?h, now s + timeout s)]"
          "now (start s) = now s" "executions (start s) = executions s"
      by simp_all
    have due: "now s + timeout s \<le> now (start s) + timeout s" by (simp add: st)
    have a: "executions (tick envs (timeout s) (start s)) = Suc (executions s)"
      using tick_fires_once(1)[OF st(2) due, of envs] by (simp add: st)
    have b: "executions (tick envs d (tick envs (timeout s) (start s))) = Suc (executions s)" for d
      using tick_idle[OF tick_fires_once(2)[OF st(2) due, of envs], of envs d] a by simp
    have c: "executions (tick envs d (start s)) = executions s
           \<and> executions (tick envs (timeout s - d) (start (tick envs d (start s)))) = Suc (executions s)"
      if d: "d < timeout s" for d
    proof -
      have e: "tick envs d (start s) = (start s)\<lparr>now := now s + d\<rparr>"
        using tick_none_due[of "start s" d envs] d by (simp add: st)
      have i: "isStarted ((start s)\<lparr>now := now s + d\<rparr>)"
        using isStarted_start[of s] by (simp add: isStarted_def)
      have p: "pending ((start s)\<lparr>now := now s + d\<rparr>) = [(?h, now s + timeout s)]"
        by (simp add: st)
      have q: "now s + timeout s \<le> now ((start s)\<lparr>now := now s + d\<rparr>) + (timeout s - d)"
        using d by simp
      show ?thesis
        unfolding e start_armed[OF i]
        using tick_fires_once(1)[OF p q, of envs] by (simp add: st)
    qed
    from st(2) a b c show ?thesis unfolding twice by blast
  qed
  from isStarted_start[of s] start_armed[of s] twice run show ?thesis by blast
qed

theorem start_idempotent_witness:
  "isStarted (start fresh)
   \<and> start (start fresh) = start fresh
   \<and> pending (start (start fresh)) = [(1, 5000)]
   \<and> executions (tick (\<lambda>h. stubs) 5000 (start (start fresh))) = 1
   \<and> executions (tick (\<lambda>h. stubs) 7 (tick (\<lambda>h. stubs) 5000 (start (start fresh)))) = 1
   \<and> executions (tick (\<lambda>h. stubs) 2000 (start fresh)) = 0
   \<and> executions (tick (\<lambda>h. stubs) 3000 (start (tick (\<lambda>h. stubs) 2000 (start fresh)))) = 1"
proof -
  have f: "\<not> isStarted fresh" "pending fresh = []" "timeout fresh = 5000" "next_handle fresh = 0"
          "now fresh = 0" "executions fresh = 0"
    by (simp_all add: fresh_def isStarted_def executions_def)
  have "(2000::nat) < 5000" "(5000::nat) - 2000 = 3000" by simp_all
  with start_idempotent[of fresh "\<lambda>h. stubs"] f show ?thesis
    by (metis One_nat_def add_0)
qed

text \<open>
  C6. \<open>stop()\<close> clears \<open>this.timer\<close>, so \<open>isStarted()\<close> is false, and disarms the timer it
  held; the list, the calls made so far and every other field stay as they were. It is a total
  function: on an instance without a timer it changes nothing, and a second \<open>stop()\<close> changes
  nothing. When \<open>stop()\<close> comes before the delay is over, right after \<open>start()\<close> or part of
  the way through, no advance of the clock executes the pipeline.
\<close>

theorem stop_frame:
  "timer (stop s) = None \<and> \<not> isStarted (stop s)
   \<and> pending (stop s) = (case timer s of None \<Rightarrow> pending s
                          | Some h \<Rightarrow> filter (\<lambda>(h', due). h' \<noteq> h) (pending s))
   \<and> list (stop s) = list s \<and> trace (stop s) = trace s \<and> background (stop s) = background s
   \<and> init (stop s) = init s \<and> timeout (stop s) = timeout s \<and> now (stop s) = now s
   \<and> next_handle (stop s) = next_handle s
   \<and> stop (stop s) = stop s
   \<and> (timer s = None \<longrightarrow> stop s = s)
   \<and> (\<not> isStarted s \<and> pending s = [] \<longrightarrow>
        (\<forall>d. executions (tick envs d (stop (start s))) = executions s)
      \<and> (\<forall>d d'. d < timeout s \<longrightarrow>
             executions (tick envs d' (stop (tick envs d (start s)))) = executions s))"
proof -
  have frame: "timer (stop s) = None \<and> \<not> isStarted (stop s)
   \<and> pending (stop s) = (case timer s of None \<Rightarrow> pending s
                          | Some h \<Rightarrow> filter (\<lambda>(h', due). h' \<noteq> h) (pending s))
   \<and> list (stop s) = list s \<and> trace (stop s) = trace s \<and> background (stop s) = background s
   \<and> init (stop s) = init s \<and> timeout (stop s) = timeout s \<and> now (stop s) = now s
   \<and> next_handle (stop s) = next_handle s"
    by (simp add: isStarted_def) (simp add: stop_def clearTimeout_def Let_def split: option.splits)
  have noop: "stop t = t" if "timer t = None" for t
    using that by (simp add: stop_def)
  have twice: "stop (stop s) = stop s"
    by (rule noop) simp
  have run: "(\<forall>d. executions (tick envs d (stop (start s))) = executions s)
      \<and> (\<forall>d d'. d < timeout s \<longrightarrow>
             executions (tick envs d' (stop (tick envs d (start s)))) = executions s)"
    if idle: "\<not> isStarted s" "pending s = []"
  proof -
    let ?h = "Suc (next_handle s)"
    from start_unarmed[OF idle(1)] idle(2) have
      st: "timer (start s) = Some ?h" "pending (start s) = [(?h, now s + timeout s)]"
          "now (start s) = now s" "executions (start s) = executions s"
      by simp_all
    have p: "pending (stop (start s)) = []"
      by (simp add: stop_def clearTimeout_def Let_def st)
    have a: "executions (tick envs d (stop (start s))) = executions s" for d
      using tick_idle[OF p, of envs d] by (simp add: st)
    have b: "executions (tick envs d' (stop (tick envs d (start s)))) = executions s"
      if d: "d < timeout s" for d d'
    proof -
      have e: "tick envs d (start s) = (start s)\<lparr>now := now s + d\<rparr>"
        using tick_none_due[of "start s" d envs] d by (simp add: st)
      have q: "pending (stop ((start s)\<lparr>now := now s + d\<rparr>)) = []"
        by (simp add: stop_def clearTimeout_def Let_def st)
      show ?thesis
        unfolding e using tick_idle[OF q, of envs d'] by (simp add: st)
    qed
    from a b show ?thesis by blast
  qed
  from frame twice noop[of s] run show ?thesis by blast
qed

theorem stop_frame_witness:
  "stop fresh = fresh
   \<and> stop (stop (start fresh)) = stop (start fresh)
   \<and> \<not> isStarted (stop (start fresh))
   \<and> list (stop armed) = list armed
   \<and> executions (tick (\<lambda>h. stubs) 5000 (stop (start fresh))) = 0
   \<and> executions (tick (\<lambda>h. stubs) 5000 (stop (tick (\<lambda>h. stubs) 4999 (start fresh)))) = 0"
proof -
  have f: "\<not> isStarted fresh" "pending fresh = []" "timeout fresh = 5000" "timer fresh = None"
          "executions fresh = 0"
    by (simp_all add: fresh_def isStarted_def executions_def)
  have "(4999::nat) < 5000" by simp
  with stop_frame[of fresh "\<lambda>h. stubs"] stop_frame[of "start fresh" "\<lambda>h. stubs"]
       stop_frame[of armed "\<lambda>h. stubs"] f
  show ?thesis by metis
qed

text \<open>
  C7, as the code has it. A run that finds no timer at entry resolves at once: it writes its two
  trace lines and nothing else happens (no network query, no change to any other field). In every
  run the \<open>peer\<close> events and the connection requests are for the first \<open>n\<close> entries of the
  list, one each. A \<open>stop()\<close> that arrives while the merge of the entry at position \<open>k\<close> is
  awaited gives \<open>n \<le> k\<close>: neither that entry nor a later one is announced or dialed. A
  \<open>stop()\<close> called by a listener of the \<open>peer\<close> event of the entry at position \<open>k\<close> gives
  \<open>n \<le> k + 1\<close>: the timer is not looked at between the event and \<open>openConnection\<close>, so the
  connection of that entry is still requested, after the timer has been cleared; no later entry
  is announced or dialed. A \<open>stop()\<close> that arrives before the loop (during the network query,
  the contract query or a routing lookup) gives \<open>n = 0\<close>. The calls made on the instance while
  the run is in flight are calls of \<open>stop()\<close>: after a \<open>start()\<close> that follows one, the guard
  of the next entry finds the new timer, and the statement does not cover that.
\<close>

theorem stopped_pipeline_is_silent:
  "(timer s = None \<longrightarrow>
      discoverBootstrapPeers env s =
        (None, s\<lparr>trace := trace s @ [Log Trace [ArgStr ''_discoverBootstrapPeers called''],
                                     Log Trace [ArgStr ''timer is null, returning early'']]\<rparr>))
   \<and> (\<exists>n. announced (run_events env s) = take n (list (snd (discoverBootstrapPeers env s)))
         \<and> dialed (run_events env s) = map id' (take n (list (snd (discoverBootstrapPeers env s))))
         \<and> (\<forall>k. stops env (AtMerge k) \<longrightarrow> n \<le> k)
         \<and> (\<forall>k. stops env (AtPeerEvent k) \<longrightarrow> n \<le> Suc k)
         \<and> (stops env AtGetNetwork \<or> stops env AtGetAllPeerIds \<longrightarrow> n = 0)
         \<and> (\<forall>peerIds i pid. getAllPeerIds env = Inr peerIds \<and> i < length peerIds
               \<and> peerIdFromString env (peerIds ! i) = Inr pid \<and> stops env (AtFindPeer i) \<longrightarrow> n = 0))"
proof -
  have entry: "timer s = None \<longrightarrow>
      discoverBootstrapPeers env s =
        (None, s\<lparr>trace := trace s @ [Log Trace [ArgStr ''_discoverBootstrapPeers called''],
                                     Log Trace [ArgStr ''timer is null, returning early'']]\<rparr>)"
    by (simp add: discoverBootstrapPeers_def Let_def log_def emit_def)
  let ?P = "\<lambda>n. announced (run_events env s) = take n (list (snd (discoverBootstrapPeers env s)))
         \<and> dialed (run_events env s) = map id' (take n (list (snd (discoverBootstrapPeers env s))))
         \<and> (\<forall>k. stops env (AtMerge k) \<longrightarrow> n \<le> k)
         \<and> (\<forall>k. stops env (AtPeerEvent k) \<longrightarrow> n \<le> Suc k)
         \<and> (stops env AtGetNetwork \<or> stops env AtGetAllPeerIds \<longrightarrow> n = 0)
         \<and> (\<forall>peerIds i pid. getAllPeerIds env = Inr peerIds \<and> i < length peerIds
               \<and> peerIdFromString env (peerIds ! i) = Inr pid \<and> stops env (AtFindPeer i) \<longrightarrow> n = 0)"
  have "\<exists>n. ?P n"
  proof (cases "timer s = None \<or> (\<exists>e. getNetwork env = Inl e) \<or>
                (\<exists>n. getNetwork env = Inr n \<and> Some n \<noteq> chainId (init s)) \<or>
                (\<exists>e. ContractClass env = Some e) \<or> (\<exists>e. getAllPeerIds env = Inl e)")
    case True
    from early_exit[OF True] have "?P 0" by simp
    then show ?thesis ..
  next
    case False
    then obtain network ids where h: "timer s \<noteq> None" "getNetwork env = Inr network"
        "Some network = chainId (init s)" "ContractClass env = None" "getAllPeerIds env = Inr ids"
      by (cases "getNetwork env"; cases "getAllPeerIds env"; cases "ContractClass env") auto
    let ?N = "length (announced (run_events env s))"
    note r = run_shape[OF h]
    have a: "announced (run_events env s) = take ?N (list (snd (discoverBootstrapPeers env s)))"
            "dialed (run_events env s) = map id' (take ?N (list (snd (discoverBootstrapPeers env s))))"
      unfolding r(1) by (rule r(3), rule r(4))
    have b: "\<forall>k. stops env (AtMerge k) \<longrightarrow> ?N \<le> k"
      using r(8) by (meson not_le_imp_less)
    have c: "\<forall>k. stops env (AtPeerEvent k) \<longrightarrow> ?N \<le> Suc k"
      using r(9) by (meson not_le_imp_less)
    have d: "stops env AtGetNetwork \<or> stops env AtGetAllPeerIds \<longrightarrow> ?N = 0"
      using r(10) by blast
    have e: "\<forall>peerIds i pid. getAllPeerIds env = Inr peerIds \<and> i < length peerIds
               \<and> peerIdFromString env (peerIds ! i) = Inr pid \<and> stops env (AtFindPeer i) \<longrightarrow> ?N = 0"
      using r(10) h(5) by auto
    from a b c d e have "?P ?N" by blast
    then show ?thesis ..
  qed
  with entry show ?thesis by blast
qed

theorem stopped_pipeline_is_silent_counterexample:
  "drop 22 (run_events (stubs\<lparr>stops := (\<lambda>p. p = AtPeerEvent 0)\<rparr>) armed) =
     [PeerEvent (info ''QmXb''),
      Log Trace [ArgStr ''About to call openConnection for peer'', ArgPeerId ''QmXb''],
      OpenConnection ''QmXb'',
      Log Trace [ArgStr ''Processing peer data:'', ArgPeerInfo (info ''QmXc'')],
      Merge ''QmXc'' ''mytag'' 42 (Some 60000) [''/ip4/127.0.0.1/tcp/4001/ipfs/QmXc''],
      Log Trace [ArgStr ''Timer is null, returning early'']]
   \<and> dialed (run_events (stubs\<lparr>stops := (\<lambda>p. p = AtPeerEvent 0)\<rparr>) armed) = [''QmXb'']
   \<and> timer (snd (discoverBootstrapPeers (stubs\<lparr>stops := (\<lambda>p. p = AtPeerEvent 0)\<rparr>) armed)) = None"
  by (simp add: run_defs fixture_defs)

theorem stopped_pipeline_is_silent_witness:
  "discoverBootstrapPeers stubs fresh =
     (None, fresh\<lparr>trace := trace fresh @ [Log Trace [ArgStr ''_discoverBootstrapPeers called''],
                                          Log Trace [ArgStr ''timer is null, returning early'']]\<rparr>)
   \<and> length (merged (run_events (stubs\<lparr>stops := (\<lambda>p. p = AtMerge 1)\<rparr>) armed)) = 2
   \<and> length (announced (run_events (stubs\<lparr>stops := (\<lambda>p. p = AtMerge 1)\<rparr>) armed)) \<le> 1
   \<and> length (dialed (run_events (stubs\<lparr>stops := (\<lambda>p. p = AtMerge 1)\<rparr>) armed)) \<le> 1
   \<and> length (announced (run_events (stubs\<lparr>stops := (\<lambda>p. p = AtPeerEvent 0)\<rparr>) armed)) \<le> 1
   \<and> length (dialed (run_events (stubs\<lparr>stops := (\<lambda>p. p = AtPeerEvent 0)\<rparr>) armed)) \<le> 1
   \<and> announced (run_events (stubs\<lparr>stops := (\<lambda>p. p = AtGetNetwork)\<rparr>) armed) = []
   \<and> dialed (run_events (stubs\<lparr>stops := (\<lambda>p. p = AtGetNetwork)\<rparr>) armed) = []"
proof -
  have 1: "discoverBootstrapPeers stubs fresh =
     (None, fresh\<lparr>trace := trace fresh @ [Log Trace [ArgStr ''_discoverBootstrapPeers called''],
                                          Log Trace [ArgStr ''timer is null, returning early'']]\<rparr>)"
    using stopped_pipeline_is_silent[of fresh stubs] by (simp add: fresh_def)
  have 2: "length (announced (run_events (stubs\<lparr>stops := (\<lambda>p. p = AtMerge 1)\<rparr>) armed)) \<le> 1
         \<and> length (dialed (run_events (stubs\<lparr>stops := (\<lambda>p. p = AtMerge 1)\<rparr>) armed)) \<le> 1"
    using stopped_pipeline_is_silent[of armed "stubs\<lparr>stops := (\<lambda>p. p = AtMerge 1)\<rparr>"]
    by (auto simp add: stubs_def)
  have 3: "announced (run_events (stubs\<lparr>stops := (\<lambda>p. p = AtGetNetwork)\<rparr>) armed) = []
         \<and> dialed (run_events (stubs\<lparr>stops := (\<lambda>p. p = AtGetNetwork)\<rparr>) armed) = []"
    using stopped_pipeline_is_silent[of armed "stubs\<lparr>stops := (\<lambda>p. p = AtGetNetwork)\<rparr>"]
    by (auto simp add: stubs_def)
  have 4: "length (merged (run_events (stubs\<lparr>stops := (\<lambda>p. p = AtMerge 1)\<rparr>) armed)) = 2"
    by (simp add: run_defs fixture_defs)
  have 5: "length (announced (run_events (stubs\<lparr>stops := (\<lambda>p. p = AtPeerEvent 0)\<rparr>) armed)) \<le> 1
         \<and> length (dialed (run_events (stubs\<lparr>stops := (\<lambda>p. p = AtPeerEvent 0)\<rparr>) armed)) \<le> 1"
    using stopped_pipeline_is_silent[of armed "stubs\<lparr>stops := (\<lambda>p. p = AtPeerEvent 0)\<rparr>"]
    by (auto simp add: stubs_def)
  from 1 2 3 4 5 show ?thesis by blast
qed

text \<open>
  C8. Once the chain check has passed the promise always resolves. A contract constructor that
  throws and a contract query that fails each end the run with the line
  \<open>Could not discover bootstrap peers\<close> and the cause, the first before any query is issued.
  A merge that was issued and failed was the last merge of the run, its entry and the later ones
  got no event and no connection request, and the run ends with the same line and the cause.
\<close>

theorem outer_boundary:
  assumes "timer s \<noteq> None"
    and "getNetwork env = Inr network" and "Some network = chainId (init s)"
  shows "fst (discoverBootstrapPeers env s) = None
       \<and> (\<forall>err. ContractClass env = Some err \<longrightarrow>
            run_events env s =
              [Log Trace [ArgStr ''_discoverBootstrapPeers called''],
               Log Trace [ArgStr ''Getting network from ethereum provider''],
               GetNetwork,
               Log Trace [ArgStr ''Creating contract instance''],
               NewContract (contractAddress (init s)),
               Log Err [ArgStr ''Could not discover bootstrap peers'', ArgErr err]])
       \<and> (\<forall>err. ContractClass env = None \<and> getAllPeerIds env = Inl err \<longrightarrow>
            run_events env s =
              [Log Trace [ArgStr ''_discoverBootstrapPeers called''],
               Log Trace [ArgStr ''Getting network from ethereum provider''],
               GetNetwork,
               Log Trace [ArgStr ''Creating contract instance''],
               NewContract (contractAddress (init s)),
               Log Trace [ArgStr ''Calling getAllPeerIds''],
               GetAllPeerIds (contractIndex (init s)),
               Log Err [ArgStr ''Could not discover bootstrap peers'', ArgErr err]])
       \<and> (\<forall>peerIds. ContractClass env = None \<and> getAllPeerIds env = Inr peerIds \<longrightarrow>
            (\<exists>m n. merged (run_events env s) =
                      map (merge_call (init s)) (take m (list s @ resolved env 0 peerIds))
                  \<and> announced (run_events env s) = take n (list s @ resolved env 0 peerIds)
                  \<and> dialed (run_events env s) = map id' (take n (list s @ resolved env 0 peerIds))
                  \<and> (\<forall>k err. k < m \<and> k < length (list s @ resolved env 0 peerIds)
                        \<and> merge env k ((list s @ resolved env 0 peerIds) ! k) = Some err \<longrightarrow>
                          m = Suc k \<and> n = k
                        \<and> last (run_events env s) =
                            Log Err [ArgStr ''Could not discover bootstrap peers'', ArgErr err])))"
proof -
  have 1: "fst (discoverBootstrapPeers env s) = None"
    using assms
    by (auto simp add: discoverBootstrapPeers_def Let_def split: sum.splits prod.splits completion.splits)
  have 2: "\<forall>err. ContractClass env = Some err \<longrightarrow>
            run_events env s =
              [Log Trace [ArgStr ''_discoverBootstrapPeers called''],
               Log Trace [ArgStr ''Getting network from ethereum provider''],
               GetNetwork,
               Log Trace [ArgStr ''Creating contract instance''],
               NewContract (contractAddress (init s)),
               Log Err [ArgStr ''Could not discover bootstrap peers'', ArgErr err]]"
  proof (intro allI impI)
    fix err assume "ContractClass env = Some err"
    then show "run_events env s =
              [Log Trace [ArgStr ''_discoverBootstrapPeers called''],
               Log Trace [ArgStr ''Getting network from ethereum provider''],
               GetNetwork,
               Log Trace [ArgStr ''Creating contract instance''],
               NewContract (contractAddress (init s)),
               Log Err [ArgStr ''Could not discover bootstrap peers'', ArgErr err]]"
      using assms
      by (intro run_events_eq) (auto simp add: discoverBootstrapPeers_def try_block_def Let_def)
  qed
  have 3: "\<forall>err. ContractClass env = None \<and> getAllPeerIds env = Inl err \<longrightarrow>
            run_events env s =
              [Log Trace [ArgStr ''_discoverBootstrapPeers called''],
               Log Trace [ArgStr ''Getting network from ethereum provider''],
               GetNetwork,
               Log Trace [ArgStr ''Creating contract instance''],
               NewContract (contractAddress (init s)),
               Log Trace [ArgStr ''Calling getAllPeerIds''],
               GetAllPeerIds (contractIndex (init s)),
               Log Err [ArgStr ''Could not discover bootstrap peers'', ArgErr err]]"
  proof (intro allI impI)
    fix err assume "ContractClass env = None \<and> getAllPeerIds env = Inl err"
    then show "run_events env s =
              [Log Trace [ArgStr ''_discoverBootstrapPeers called''],
               Log Trace [ArgStr ''Getting network from ethereum provider''],
               GetNetwork,
               Log Trace [ArgStr ''Creating contract instance''],
               NewContract (contractAddress (init s)),
               Log Trace [ArgStr ''Calling getAllPeerIds''],
               GetAllPeerIds (contractIndex (init s)),
               Log Err [ArgStr ''Could not discover bootstrap peers'', ArgErr err]]"
      using assms
      by (intro run_events_eq) (auto simp add: discoverBootstrapPeers_def try_block_def Let_def)
  qed
  have 4: "\<forall>peerIds. ContractClass env = None \<and> getAllPeerIds env = Inr peerIds \<longrightarrow>
            (\<exists>m n. merged (run_events env s) =
                      map (merge_call (init s)) (take m (list s @ resolved env 0 peerIds))
                  \<and> announced (run_events env s) = take n (list s @ resolved env 0 peerIds)
                  \<and> dialed (run_events env s) = map id' (take n (list s @ resolved env 0 peerIds))
                  \<and> (\<forall>k err. k < m \<and> k < length (list s @ resolved env 0 peerIds)
                        \<and> merge env k ((list s @ resolved env 0 peerIds) ! k) = Some err \<longrightarrow>
                          m = Suc k \<and> n = k
                        \<and> last (run_events env s) =
                            Log Err [ArgStr ''Could not discover bootstrap peers'', ArgErr err]))"
  proof (intro allI impI)
    fix peerIds assume q: "ContractClass env = None \<and> getAllPeerIds env = Inr peerIds"
    let ?L = "list s @ resolved env 0 peerIds"
    let ?M = "length (merged (run_events env s))"
    let ?N = "length (announced (run_events env s))"
    from q have c: "ContractClass env = None" and i: "getAllPeerIds env = Inr peerIds" by simp_all
    note r = run_shape[OF assms c i]
    have "\<forall>k err. k < ?M \<and> k < length ?L \<and> merge env k (?L ! k) = Some err \<longrightarrow>
            ?M = Suc k \<and> ?N = k
          \<and> last (run_events env s) = Log Err [ArgStr ''Could not discover bootstrap peers'', ArgErr err]"
    proof (intro allI impI)
      fix k err assume k: "k < ?M \<and> k < length ?L \<and> merge env k (?L ! k) = Some err"
      have nk: "\<not> k < ?N" using r(8) k by auto
      from r(11) k nk show "?M = Suc k \<and> ?N = k
          \<and> last (run_events env s) = Log Err [ArgStr ''Could not discover bootstrap peers'', ArgErr err]"
        by (elim disjE conjE exE) (simp_all add: less_Suc_eq)
    qed
    with r(2,3,4) show "\<exists>m n. merged (run_events env s) = map (merge_call (init s)) (take m ?L)
                  \<and> announced (run_events env s) = take n ?L
                  \<and> dialed (run_events env s) = map id' (take n ?L)
                  \<and> (\<forall>k err. k < m \<and> k < length ?L \<and> merge env k (?L ! k) = Some err \<longrightarrow>
                          m = Suc k \<and> n = k
                        \<and> last (run_events env s) =
                            Log Err [ArgStr ''Could not discover bootstrap peers'', ArgErr err])"
      by blast
  qed
  from 1 2 3 4 show ?thesis by blast
qed

theorem outer_boundary_witness:
  "fst (discoverBootstrapPeers (stubs\<lparr>ContractClass := Some (Error ''boom'')\<rparr>) armed) = None
   \<and> run_events (stubs\<lparr>ContractClass := Some (Error ''boom'')\<rparr>) armed =
        [Log Trace [ArgStr ''_discoverBootstrapPeers called''],
         Log Trace [ArgStr ''Getting network from ethereum provider''],
         GetNetwork,
         Log Trace [ArgStr ''Creating contract instance''],
         NewContract (Some ''0x1234''),
         Log Err [ArgStr ''Could not discover bootstrap peers'', ArgErr (Error ''boom'')]]
   \<and> last (run_events (stubs\<lparr>getAllPeerIds := Inl (Error ''call revert'')\<rparr>) armed) =
        Log Err [ArgStr ''Could not discover bootstrap peers'', ArgErr (Error ''call revert'')]
   \<and> fst (discoverBootstrapPeers (stubs\<lparr>merge := (\<lambda>j p. if j = 1 then Some (Error ''store closed'') else None)\<rparr>) armed) = None
   \<and> length (merged (run_events (stubs\<lparr>merge := (\<lambda>j p. if j = 1 then Some (Error ''store closed'') else None)\<rparr>) armed)) = 2
   \<and> announced (run_events (stubs\<lparr>merge := (\<lambda>j p. if j = 1 then Some (Error ''store closed'') else None)\<rparr>) armed)
        = [info ''QmXb'']
   \<and> last (run_events (stubs\<lparr>merge := (\<lambda>j p. if j = 1 then Some (Error ''store closed'') else None)\<rparr>) armed) =
        Log Err [ArgStr ''Could not discover bootstrap peers'', ArgErr (Error ''store closed'')]"
proof -
  have h: "timer armed \<noteq> None" "Some 1 = chainId (init armed)"
    by (simp_all add: fixture_defs)
  have 1: "fst (discoverBootstrapPeers (stubs\<lparr>ContractClass := Some (Error ''boom'')\<rparr>) armed) = None
   \<and> run_events (stubs\<lparr>ContractClass := Some (Error ''boom'')\<rparr>) armed =
        [Log Trace [ArgStr ''_discoverBootstrapPeers called''],
         Log Trace [ArgStr ''Getting network from ethereum provider''],
         GetNetwork,
         Log Trace [ArgStr ''Creating contract instance''],
         NewContract (Some ''0x1234''),
         Log Err [ArgStr ''Could not discover bootstrap peers'', ArgErr (Error ''boom'')]]"
    using outer_boundary[OF h(1) _ h(2), of "stubs\<lparr>ContractClass := Some (Error ''boom'')\<rparr>"]
    by (simp add: fixture_defs)
  have 2: "last (run_events (stubs\<lparr>getAllPeerIds := Inl (Error ''call revert'')\<rparr>) armed) =
        Log Err [ArgStr ''Could not discover bootstrap peers'', ArgErr (Error ''call revert'')]"
    using outer_boundary[OF h(1) _ h(2), of "stubs\<lparr>getAllPeerIds := Inl (Error ''call revert'')\<rparr>"]
    by (simp add: fixture_defs)
  let ?env = "stubs\<lparr>merge := (\<lambda>j p. if j = 1 then Some (Error ''store closed'') else None)\<rparr>"
  have 3: "fst (discoverBootstrapPeers ?env armed) = None"
    using outer_boundary[OF h(1) _ h(2), of ?env] by (simp add: fixture_defs)
  have 4: "length (merged (run_events ?env armed)) = 2"
          "announced (run_events ?env armed) = [info ''QmXb'']"
          "last (run_events ?env armed) =
            Log Err [ArgStr ''Could not discover bootstrap peers'', ArgErr (Error ''store closed'')]"
    by (simp_all add: run_defs fixture_defs)
  from 1 2 3 4 show ?thesis by blast
qed




end
